(* ===== verification/Prelude.thy ===== *)
theory Prelude
  imports Complex_Main "HOL-Library.Word"
begin

text \<open>
  Shared vocabulary of the development: how Python values are represented, the
  Python built-ins the sources call (\<open>int()\<close> on a float, slicing, \<open>str.strip()\<close>),
  the peak magnitude that \<open>np.max(np.abs(..))\<close> computes, little-endian byte
  encodings as \<open>struct\<close> and \<open>wave\<close> produce them, and splitting a list into
  fixed-size frames as a decoder of the audio does. Every lemma here is used by
  more than one component theory.
\<close>

named_theorems py_simps "evaluation rules of the Python built-ins of the model"

section \<open>Types of the model\<close>

text \<open>
  A Python \<open>str\<close> is a sequence of Unicode code points, so it is modelled as a
  list of naturals (\<open>ord\<close> of each character); literals of the source are written
  with \<open>py\<close>, which reads an ASCII literal as its code points. Python floats are
  modelled as exact reals and \<open>math.sin\<close>/\<open>np.sin\<close> as \<^const>\<open>sin\<close>. Bytes are
  8-bit words and 16-bit PCM samples are 16-bit words.
\<close>

type_synonym pystr = "nat list"
type_synonym byte = "8 word"
type_synonym int16 = "16 word"

abbreviation py :: "string \<Rightarrow> pystr" where
  "py s \<equiv> map of_char s"

datatype py_error =
    ZeroDivisionError
  | ValueError
  | StructError
  | AttributeError
  | UnsupportedMediaType
  | InvalidFloat
  | FileNotFoundError

text \<open>
  Sequencing two Python calls of which the first may raise: the exception propagates,
  otherwise the second runs on the first one's result.
\<close>

definition py_bind :: "py_error + 'a \<Rightarrow> ('a \<Rightarrow> py_error + 'b) \<Rightarrow> py_error + 'b" where
  "py_bind m f = (case m of Inl e \<Rightarrow> Inl e | Inr a \<Rightarrow> f a)"

lemma py_bind_Inl [simp]: "py_bind (Inl e) f = Inl e"
  and py_bind_Inr [simp]: "py_bind (Inr a) f = f a"
  by (simp_all add: py_bind_def)

section \<open>\<open>int()\<close> of a float\<close>

text \<open>\<open>int(x)\<close> of a Python float truncates towards zero.\<close>

definition py_int :: "real \<Rightarrow> int" where
  "py_int x = (if 0 \<le> x then \<lfloor>x\<rfloor> else \<lceil>x\<rceil>)"

text \<open>
  \<open>[0] * int(x)\<close> and \<open>range(int(x))\<close> have \<open>max 0 (int(x))\<close> elements.
\<close>

definition py_count :: "real \<Rightarrow> nat" where
  "py_count x = nat (py_int x)"

lemma py_int_of_int [simp, py_simps]: "py_int (of_int k) = k"
  by (simp add: py_int_def)

lemma py_int_0 [simp, py_simps]: "py_int 0 = 0"
  by (simp add: py_int_def)

lemma py_int_abs_le: "\<bar>real_of_int (py_int x)\<bar> \<le> \<bar>x\<bar>"
  by (simp add: py_int_def)

lemma py_int_bounded:
  assumes "\<bar>x\<bar> \<le> of_int m"
  shows "-m \<le> py_int x \<and> py_int x \<le> m"
  using py_int_abs_le [of x] assms by linarith

lemma py_count_floor [py_simps]: "py_count x = nat \<lfloor>x\<rfloor>"
  by (simp add: py_count_def py_int_def)

lemma py_count_of_nat [simp]: "py_count (of_nat n) = n"
  by (simp add: py_count_floor)

lemma py_count_numeral [simp]: "py_count (numeral n) = numeral n"
  by (simp add: py_count_floor)

lemma py_count_0_1 [simp]: "py_count 0 = 0" "py_count 1 = 1"
  by (simp_all add: py_count_floor)

section \<open>Slicing and stripping\<close>

text \<open>
  \<open>xs[a:b]\<close>: negative bounds count from the end, then both bounds are clamped to
  \<open>[0, len(xs)]\<close>; an empty range gives the empty list.
\<close>

definition py_slice_index :: "nat \<Rightarrow> int \<Rightarrow> nat" where
  "py_slice_index n i = nat (if i < 0 then max 0 (i + int n) else min i (int n))"

definition py_slice :: "'a list \<Rightarrow> int \<Rightarrow> int \<Rightarrow> 'a list" where
  "py_slice xs a b =
     (let a' = py_slice_index (length xs) a; b' = py_slice_index (length xs) b
      in take (b' - a') (drop a' xs))"

lemma py_slice_nat [py_simps]:
  assumes "a \<le> b" and "b \<le> length xs"
  shows "py_slice xs (int a) (int b) = take (b - a) (drop a xs)"
  using assms by (simp add: py_slice_def py_slice_index_def)

text \<open>
  \<open>str.isspace\<close> for one code point (the characters of Unicode class Zs and
  bidirectional class WS, B or S), and \<open>str.strip()\<close> with no argument.
\<close>

definition py_isspace :: "nat \<Rightarrow> bool" where
  "py_isspace c \<longleftrightarrow>
     (9 \<le> c \<and> c \<le> 13) \<or> (28 \<le> c \<and> c \<le> 32) \<or> c = 133 \<or> c = 160 \<or> c = 5760 \<or>
     (8192 \<le> c \<and> c \<le> 8202) \<or> c = 8232 \<or> c = 8233 \<or> c = 8239 \<or> c = 8287 \<or> c = 12288"

definition py_strip :: "pystr \<Rightarrow> pystr" where
  "py_strip s = rev (dropWhile py_isspace (rev (dropWhile py_isspace s)))"

lemma py_strip_no_space [py_simps]:
  assumes "s = [] \<or> (\<not> py_isspace (hd s) \<and> \<not> py_isspace (last s))"
  shows "py_strip s = s"
proof (cases s rule: rev_cases)
  case (snoc ys y)
  with assms have "\<not> py_isspace (hd s)" and "\<not> py_isspace y" by auto
  then show ?thesis using snoc
    by (cases ys) (simp_all add: py_strip_def)
qed (simp add: py_strip_def)

text \<open>
  \<open>s.replace(old, new)\<close>: every occurrence of \<open>old\<close>, scanning from the left without
  overlaps, is replaced by \<open>new\<close>; an empty \<open>old\<close> inserts \<open>new\<close> around every character.
  Each call consumes at least one character, which is the termination argument.
\<close>

function py_replace :: "'a list \<Rightarrow> 'a list \<Rightarrow> 'a list \<Rightarrow> 'a list" where
  "py_replace [] old new = (if old = [] then new else [])"
| "py_replace (c # cs) old new =
     (if old = [] then new @ c # py_replace cs old new
      else if take (length old) (c # cs) = old then new @ py_replace (drop (length old) (c # cs)) old new
      else c # py_replace cs old new)"
  by pat_completeness auto
termination
  by (relation "measure (\<lambda>(s, old, new). length s)") auto

text \<open>\<open>os.path.basename\<close> on a POSIX path: what follows the last \<open>/\<close>.\<close>

definition py_basename :: "pystr \<Rightarrow> pystr" where
  "py_basename p = rev (takeWhile (\<lambda>c. c \<noteq> 47) (rev p))"

section \<open>Peak magnitude\<close>

text \<open>
  \<open>np.max(np.abs(a))\<close> on a non-empty array; on an empty one numpy raises, which the
  callers check before they use this.
\<close>

primrec max_abs :: "real list \<Rightarrow> real" where
  "max_abs [] = 0"
| "max_abs (x # xs) = max \<bar>x\<bar> (max_abs xs)"

lemma max_abs_nonneg [simp]: "0 \<le> max_abs xs"
  by (induction xs) auto

lemma max_abs_ge: "x \<in> set xs \<Longrightarrow> \<bar>x\<bar> \<le> max_abs xs"
  by (induction xs) auto

lemma max_abs_le_iff: "max_abs xs \<le> c \<longleftrightarrow> 0 \<le> c \<and> (\<forall>x \<in> set xs. \<bar>x\<bar> \<le> c)"
  by (induction xs) auto

lemma max_abs_append [simp]: "max_abs (xs @ ys) = max (max_abs xs) (max_abs ys)"
  by (induction xs) (auto simp: max.assoc)

lemma max_abs_replicate_0 [simp]: "max_abs (replicate n 0) = 0"
  by (induction n) auto

lemma max_abs_eq_0_iff: "max_abs xs = 0 \<longleftrightarrow> (\<forall>x \<in> set xs. x = 0)"
  by (induction xs) (auto simp: max_def)

lemma max_abs_map_divide:
  assumes "0 < c"
  shows "max_abs (map (\<lambda>x. x / c) xs) = max_abs xs / c"
proof (induction xs)
  case (Cons x xs)
  have "max (\<bar>x\<bar> / c) (max_abs xs / c) = max \<bar>x\<bar> (max_abs xs) / c"
    using assms by (simp add: max_def divide_right_mono divide_le_cancel)
  with Cons assms show ?case by simp
qed simp

lemma max_abs_concat:
  "max_abs (concat xss) = max_abs (map max_abs xss)"
  by (induction xss) (simp_all add: abs_of_nonneg)

section \<open>Little-endian byte encodings\<close>

text \<open>
  \<open>le_bytes k x\<close> is the \<open>k\<close>-byte little-endian encoding of \<open>x mod 256^k\<close>
  (the \<open><H\<close>, \<open><L\<close> and, through the two's-complement word, \<open><h\<close> formats of
  \<open>struct\<close>); \<open>le_nat\<close> reads it back.
\<close>

fun le_bytes :: "nat \<Rightarrow> nat \<Rightarrow> byte list" where
  "le_bytes 0 x = []"
| "le_bytes (Suc k) x = of_nat x # le_bytes k (x div 256)"

fun le_nat :: "byte list \<Rightarrow> nat" where
  "le_nat [] = 0"
| "le_nat (b # bs) = unat b + 256 * le_nat bs"

lemma length_le_bytes [simp]: "length (le_bytes k x) = k"
  by (induction k arbitrary: x) auto

lemma le_nat_le_bytes [simp]: "le_nat (le_bytes k x) = x mod 256 ^ k"
proof (induction k arbitrary: x)
  case (Suc k)
  have "x mod (256 * 256 ^ k) = 256 * (x div 256 mod 256 ^ k) + x mod 256"
    by (rule mod_mult2_eq)
  with Suc show ?case by (simp add: unat_of_nat)
qed simp

lemma le_nat_less: "le_nat bs < 256 ^ length bs"
proof (induction bs)
  case (Cons b bs)
  have "unat b < 256" using unsigned_less [of b] by simp
  with Cons show ?case by simp
qed simp

lemma le_bytes_le_nat [simp]: "le_bytes (length bs) (le_nat bs) = bs"
proof (induction bs)
  case (Cons b bs)
  have "unat b < 256" using unsigned_less [of b] by simp
  moreover have z: "(256 :: byte) = 0" by simp
  ultimately have "(unat b + 256 * le_nat bs) div 256 = le_nat bs"
    and "(of_nat (unat b + 256 * le_nat bs) :: byte) = b"
    by (simp_all add: of_nat_add z)
  with Cons show ?case by simp
qed simp

lemma le_bytes_append:
  "le_bytes (j + k) x = le_bytes j x @ le_bytes k (x div 256 ^ j)"
  by (induction j arbitrary: x) (simp_all add: div_mult2_eq)

section \<open>Frames of fixed length\<close>

lemma length_concat_const:
  assumes "\<forall>x \<in> set xs. length (f x) = k"
  shows "length (concat (map f xs)) = length xs * k"
  using assms by (induction xs) simp_all

text \<open>Split a list into consecutive pieces of length \<open>n\<close> (the last may be shorter).\<close>

fun chunks :: "nat \<Rightarrow> 'a list \<Rightarrow> 'a list list" where
  "chunks n [] = []"
| "chunks n (x # xs) =
     (if n = 0 then [x # xs] else take n (x # xs) # chunks n (drop n (x # xs)))"

lemma chunks_concat:
  assumes "0 < n" and "\<forall>c \<in> set cs. length c = n"
  shows "chunks n (concat cs) = cs"
  using assms(2)
proof (induction cs)
  case (Cons c cs)
  from Cons.prems assms(1) obtain y ys where c: "c = y # ys" and len: "length c = n"
    by (cases c) auto
  then have "take n (y # ys @ concat cs) = y # ys" and "drop n (y # ys @ concat cs) = concat cs"
    by (simp_all add: len [symmetric] c)
  with Cons c assms(1) show ?case by simp
qed simp

end
