(* ===== verification/Dtmf_Table.thy ===== *)
theory Dtmf_Table
  imports Prelude
begin

text \<open>
  The signalling alphabet. Both encoders (\<open>src/create_dtmf_wav_fixed.py\<close> and
  \<open>src/create_dtmf_wav.py\<close>) carry their own literal \<open>DTMF_TABLE\<close> dict from a
  one-character string to a (low, high) frequency pair; the dicts list their entries in
  different orders. A dict literal is an association list read with \<^const>\<open>map_of\<close>
  (its keys are distinct, so the first binding is the only one). The inverse table, which a
  decoder applies to the two detected frequencies, is \<open>dtmf_symbol_of\<close>.
\<close>

definition DTMF_TABLE :: "(nat \<times> nat \<times> nat) list" where
  "DTMF_TABLE =
     [(of_char (CHR ''0''), (941, 1336)), (of_char (CHR ''1''), (697, 1209)),
      (of_char (CHR ''2''), (697, 1336)), (of_char (CHR ''3''), (697, 1477)),
      (of_char (CHR ''4''), (770, 1209)), (of_char (CHR ''5''), (770, 1336)),
      (of_char (CHR ''6''), (770, 1477)), (of_char (CHR ''7''), (852, 1209)),
      (of_char (CHR ''8''), (852, 1336)), (of_char (CHR ''9''), (852, 1477)),
      (of_char (CHR ''*''), (941, 1209)), (of_char (CHR ''#''), (941, 1477))]"

definition DTMF_TABLE_np :: "(nat \<times> nat \<times> nat) list" where
  "DTMF_TABLE_np =
     [(of_char (CHR ''1''), (697, 1209)), (of_char (CHR ''2''), (697, 1336)),
      (of_char (CHR ''3''), (697, 1477)), (of_char (CHR ''4''), (770, 1209)),
      (of_char (CHR ''5''), (770, 1336)), (of_char (CHR ''6''), (770, 1477)),
      (of_char (CHR ''7''), (852, 1209)), (of_char (CHR ''8''), (852, 1336)),
      (of_char (CHR ''9''), (852, 1477)), (of_char (CHR ''*''), (941, 1209)),
      (of_char (CHR ''0''), (941, 1336)), (of_char (CHR ''#''), (941, 1477))]"

text \<open>The row and column frequencies of the keypad grid.\<close>

definition low_group :: "nat set" where
  "low_group = {697, 770, 852, 941}"

definition high_group :: "nat set" where
  "high_group = {1209, 1336, 1477}"

text \<open>Inverse lookup of a frequency pair, as the decoder of the spec (section 6 (c)) does.\<close>

definition dtmf_symbol_of :: "nat \<times> nat \<Rightarrow> nat option" where
  "dtmf_symbol_of p = map_option fst (find (\<lambda>(d, q). q = p) DTMF_TABLE)"

subsection \<open>Facts about the table\<close>

lemma DTMF_TABLE_keys: "map fst DTMF_TABLE = py ''0123456789*#''"
  by (simp add: DTMF_TABLE_def)

lemma DTMF_TABLE_distinct_keys: "distinct (map fst DTMF_TABLE)"
  by (simp add: DTMF_TABLE_def)

lemma DTMF_TABLE_distinct_pairs: "distinct (map snd DTMF_TABLE)"
  by (simp add: DTMF_TABLE_def)

lemma dom_DTMF_TABLE: "dom (map_of DTMF_TABLE) = set (py ''0123456789*#'')"
proof -
  have "fst ` set DTMF_TABLE = set (map fst DTMF_TABLE)" by simp
  then show ?thesis by (simp only: dom_map_of_conv_image_fst DTMF_TABLE_keys)
qed

lemma map_of_DTMF_TABLE_pair:
  "map_of DTMF_TABLE d = Some p \<longleftrightarrow> (d, p) \<in> set DTMF_TABLE"
  using DTMF_TABLE_distinct_keys by (rule map_of_eq_Some_iff)

lemma find_pair_unique:
  assumes "distinct (map snd xs)" and "(d, p) \<in> set xs"
  shows "find (\<lambda>(d, q). q = p) xs = Some (d, p)"
  using assms
proof (induction xs)
  case (Cons x xs)
  then show ?case by (cases x) (auto simp: rev_image_eqI)
qed simp

lemma DTMF_TABLE_np_eq: "map_of DTMF_TABLE_np = map_of DTMF_TABLE"
proof
  fix d
  show "map_of DTMF_TABLE_np d = map_of DTMF_TABLE d"
    by (simp add: DTMF_TABLE_def DTMF_TABLE_np_def)
qed

text \<open>Decimal digits are exactly the keys \<open>'0'..'9'\<close>, code points 48 to 57.\<close>

lemma decimal_digit_in_table:
  "k < 10 \<Longrightarrow> 48 + k \<in> dom (map_of DTMF_TABLE)"
  by (simp add: dom_DTMF_TABLE) (auto simp: less_Suc_eq numeral_eq_Suc)


lemma dtmf_symbol_of_table:
  assumes "map_of DTMF_TABLE d = Some p"
  shows "dtmf_symbol_of p = Some d"
proof -
  from assms have "(d, p) \<in> set DTMF_TABLE" by (simp add: map_of_DTMF_TABLE_pair)
  with DTMF_TABLE_distinct_pairs show ?thesis
    by (simp add: dtmf_symbol_of_def find_pair_unique)
qed

text \<open>
  C34. The decoder's inverse lookup recovers every symbol of the table from its frequency pair,
  and it rejects every pair that is not in the table.
\<close>

theorem dtmf_symbol_of_roundtrip:
  "(\<forall>d p. map_of DTMF_TABLE d = Some p \<longrightarrow> dtmf_symbol_of p = Some d) \<and>
   (\<forall>p. p \<notin> ran (map_of DTMF_TABLE) \<longrightarrow> dtmf_symbol_of p = None)"
proof (intro conjI allI impI)
  fix d p
  assume "map_of DTMF_TABLE d = Some p"
  then show "dtmf_symbol_of p = Some d" by (rule dtmf_symbol_of_table)
next
  fix p
  assume "p \<notin> ran (map_of DTMF_TABLE)"
  with DTMF_TABLE_distinct_keys have "p \<notin> snd ` set DTMF_TABLE"
    by (simp add: ran_distinct)
  then show "dtmf_symbol_of p = None"
    by (auto simp: dtmf_symbol_of_def find_None_iff rev_image_eqI)
qed

theorem dtmf_symbol_of_roundtrip_witness:
  "dtmf_symbol_of (770, 1477) = Some (of_char (CHR ''6'')) \<and> dtmf_symbol_of (770, 1633) = None"
proof -
  have h1: "map_of DTMF_TABLE (of_char (CHR ''6'')) = Some (770, 1477)"
    by (simp add: DTMF_TABLE_def)
  have h2: "(770, 1633) \<notin> ran (map_of DTMF_TABLE)"
    using DTMF_TABLE_distinct_keys by (simp add: ran_distinct DTMF_TABLE_def)
  show ?thesis using h1 h2 dtmf_symbol_of_roundtrip by blast
qed

text \<open>
  C33. The table is a bijection from its twelve symbols onto the grid of four row and three
  column frequencies: no two symbols share a pair, and every grid cell is used.
\<close>

theorem dtmf_table_grid_bijection:
  "inj_on (map_of DTMF_TABLE) (dom (map_of DTMF_TABLE)) \<and>
   ran (map_of DTMF_TABLE) = low_group \<times> high_group \<and>
   card (dom (map_of DTMF_TABLE)) = 12"
proof (intro conjI)
  show "inj_on (map_of DTMF_TABLE) (dom (map_of DTMF_TABLE))"
  proof (rule inj_onI)
    fix a b
    assume "a \<in> dom (map_of DTMF_TABLE)" and eq: "map_of DTMF_TABLE a = map_of DTMF_TABLE b"
    then obtain p where pa: "map_of DTMF_TABLE a = Some p"
      unfolding dom_def by blast
    with eq have pb: "map_of DTMF_TABLE b = Some p"
      by simp
    have "dtmf_symbol_of p = Some a" using pa by (rule dtmf_symbol_of_table)
    moreover have "dtmf_symbol_of p = Some b" using pb by (rule dtmf_symbol_of_table)
    ultimately show "a = b" by simp
  qed
  show "ran (map_of DTMF_TABLE) = low_group \<times> high_group"
    using DTMF_TABLE_distinct_keys
    by (simp add: ran_distinct DTMF_TABLE_def low_group_def high_group_def) auto
  show "card (dom (map_of DTMF_TABLE)) = 12"
    by (simp add: dom_DTMF_TABLE)
qed

end
