(* ===== verification/Ascii_Digits.thy ===== *)
theory Ascii_Digits
  imports Prelude
begin

text \<open>
  Transcoding a message into the symbol stream: \<open>text_to_ascii_digits\<close> of both
  encoders joins \<open>str(ord(c))\<close> for every character. \<open>py_str_nat\<close> is \<open>str\<close> on a
  non-negative int (decimal digits as code points 48..57, no leading zeros) and
  \<open>parse_decimal\<close> is \<open>int()\<close> on a digit string. The solver regroups the digit
  stream into characters (spec, section 6 (e)); \<open>decode_printable\<close> is the greedy
  regrouping for printable ASCII: a group starting with \<open>'1'\<close> has three digits
  (100..126), any other group two (32..99).
\<close>

fun py_str_nat :: "nat \<Rightarrow> pystr" where
  "py_str_nat n = (if n < 10 then [48 + n] else py_str_nat (n div 10) @ [48 + n mod 10])"

declare py_str_nat.simps [simp del]

definition text_to_ascii_digits :: "pystr \<Rightarrow> pystr" where
  "text_to_ascii_digits text = concat (map py_str_nat text)"

definition is_digit :: "nat \<Rightarrow> bool" where
  "is_digit d \<longleftrightarrow> 48 \<le> d \<and> d < 58"

definition parse_decimal :: "pystr \<Rightarrow> nat" where
  "parse_decimal ds = foldl (\<lambda>acc d. 10 * acc + (d - 48)) 0 ds"

definition printable :: "nat \<Rightarrow> bool" where
  "printable c \<longleftrightarrow> 32 \<le> c \<and> c \<le> 126"

fun decode_printable :: "pystr \<Rightarrow> pystr option" where
  "decode_printable [] = Some []"
| "decode_printable [d] = None"
| "decode_printable [d1, d2] =
     (let c = parse_decimal [d1, d2]
      in if d1 \<noteq> 49 \<and> is_digit d1 \<and> is_digit d2 \<and> printable c then Some [c] else None)"
| "decode_printable (d1 # d2 # d3 # rest) =
     (if d1 = 49 then
        (let c = parse_decimal [d1, d2, d3]
         in if is_digit d2 \<and> is_digit d3 \<and> printable c
            then map_option (Cons c) (decode_printable rest) else None)
      else
        (let c = parse_decimal [d1, d2]
         in if is_digit d1 \<and> is_digit d2 \<and> printable c
            then map_option (Cons c) (decode_printable (d3 # rest)) else None))"

subsection \<open>\<open>str\<close> of a natural\<close>

lemma py_str_nat_small [simp]: "n < 10 \<Longrightarrow> py_str_nat n = [48 + n]"
  by (simp add: py_str_nat.simps)

lemma py_str_nat_big: "10 \<le> n \<Longrightarrow> py_str_nat n = py_str_nat (n div 10) @ [48 + n mod 10]"
  by (subst py_str_nat.simps) simp

lemma py_str_nat_two_digits:
  "10 \<le> n \<Longrightarrow> n < 100 \<Longrightarrow> py_str_nat n = [48 + n div 10, 48 + n mod 10]"
  by (simp add: py_str_nat_big)

lemma py_str_nat_three_digits:
  assumes "100 \<le> n" and "n < 1000"
  shows "py_str_nat n = [48 + n div 100, 48 + n div 10 mod 10, 48 + n mod 10]"
proof -
  have "10 \<le> n div 10" and "n div 10 < 100" using assms by auto
  then have "py_str_nat (n div 10) = [48 + n div 10 div 10, 48 + n div 10 mod 10]"
    by (rule py_str_nat_two_digits)
  with assms show ?thesis by (simp add: py_str_nat_big div_mult2_eq)
qed

lemma py_str_nat_digits: "d \<in> set (py_str_nat n) \<Longrightarrow> is_digit d"
proof (induction n rule: py_str_nat.induct)
  case (1 n)
  then show ?case
    by (cases "n < 10") (auto simp: is_digit_def py_str_nat_big)
qed

lemma parse_decimal_snoc: "parse_decimal (ds @ [d]) = 10 * parse_decimal ds + (d - 48)"
  by (simp add: parse_decimal_def)

text \<open>\<open>int(str(n)) == n\<close>.\<close>

lemma parse_decimal_py_str_nat [simp]: "parse_decimal (py_str_nat n) = n"
proof (induction n rule: py_str_nat.induct)
  case (1 n)
  then show ?case
    by (cases "n < 10") (simp_all add: parse_decimal_def py_str_nat_big parse_decimal_snoc [unfolded parse_decimal_def])
qed

lemma text_to_ascii_digits_Nil [simp]: "text_to_ascii_digits [] = []"
  by (simp add: text_to_ascii_digits_def)

lemma text_to_ascii_digits_Cons [simp]:
  "text_to_ascii_digits (c # cs) = py_str_nat c @ text_to_ascii_digits cs"
  by (simp add: text_to_ascii_digits_def)

lemma text_to_ascii_digits_append [simp]:
  "text_to_ascii_digits (xs @ ys) = text_to_ascii_digits xs @ text_to_ascii_digits ys"
  by (simp add: text_to_ascii_digits_def)

lemma text_to_ascii_digits_digits:
  "d \<in> set (text_to_ascii_digits msg) \<Longrightarrow> is_digit d"
  by (auto simp: text_to_ascii_digits_def dest: py_str_nat_digits)

subsection \<open>Regrouping the digit stream\<close>

lemma decode_printable_char:
  assumes "printable c"
  shows "decode_printable (py_str_nat c @ rest) = map_option (Cons c) (decode_printable rest)"
proof (cases "c < 100")
  case True
  with assms have two: "py_str_nat c = [48 + c div 10, 48 + c mod 10]"
    by (simp add: printable_def py_str_nat_two_digits)
  from True assms have ne: "48 + c div 10 \<noteq> 49" and parse: "parse_decimal (py_str_nat c) = c"
    by (auto simp: printable_def)
  have dig: "is_digit (48 + c div 10)" "is_digit (48 + c mod 10)"
    using True by (auto simp: is_digit_def)
  show ?thesis
  proof (cases rest)
    case Nil
    with two ne parse dig assms show ?thesis by (simp add: Let_def)
  next
    case (Cons d rest')
    with two ne parse dig assms show ?thesis by (simp add: Let_def)
  qed
next
  case False
  with assms have three: "py_str_nat c = [48 + c div 100, 48 + c div 10 mod 10, 48 + c mod 10]"
    by (simp add: printable_def py_str_nat_three_digits)
  from False assms have one: "c div 100 = 1" by (auto simp: printable_def)
  have parse: "parse_decimal (py_str_nat c) = c" by simp
  have dig: "is_digit (48 + c div 10 mod 10)" "is_digit (48 + c mod 10)"
    by (auto simp: is_digit_def)
  from three one parse dig assms show ?thesis by (simp add: Let_def)
qed

lemma decode_printable_text:
  assumes "\<forall>c \<in> set msg. printable c"
  shows "decode_printable (text_to_ascii_digits msg) = Some msg"
  using assms
proof (induction msg)
  case (Cons c msg)
  then have "printable c" and "decode_printable (text_to_ascii_digits msg) = Some msg"
    by simp_all
  then show ?case by (simp add: decode_printable_char)
qed simp

text \<open>
  C8. For a message of printable ASCII characters (code points 32..126), greedy
  regrouping of the transcoded digit stream gives back exactly the message: on this
  alphabet the concatenation of decimal code points is uniquely decodable.
\<close>

theorem decode_printable_roundtrip:
  assumes "\<forall>c \<in> set msg. printable c"
  shows "decode_printable (text_to_ascii_digits msg) = Some msg"
  using assms by (rule decode_printable_text)

theorem decode_printable_roundtrip_witness:
  "decode_printable (text_to_ascii_digits (py ''CTF{CRYPTOGRAPHY}'')) = Some (py ''CTF{CRYPTOGRAPHY}'')"
proof -
  have h: "\<forall>c \<in> set (py ''CTF{CRYPTOGRAPHY}''). printable c"
    by (simp add: printable_def)
  show ?thesis using decode_printable_roundtrip [OF h] .
qed


end
