(* ===== verification/Wav_Container.thy ===== *)
theory Wav_Container
  imports Prelude
begin

text \<open>
  The audio container. The encoders hand their samples to Python's \<open>wave\<close> module as
  mono (\<open>setnchannels(1)\<close>), 16-bit (\<open>setsampwidth(2)\<close>) frames at a given rate;
  \<open>wave\<close> writes the 44-byte RIFF header of the spec (section 6) followed by the
  payload. \<open>wave\<close> is a library of the interpreter, not code of the repository, so
  \<open>wav_header\<close> and \<open>wave_write\<close> follow the spec's byte layout; the header's
  32-bit and 16-bit fields are packed with \<open>struct\<close>, which raises
  \<open>struct.error\<close> on a value out of range. The pure-Python encoder packs its samples
  itself with \<open>struct.pack('<' + 'h' * n, *samples)\<close>: \<open>struct_pack_h_list\<close>, which
  raises on any sample outside [-32768, 32767]. \<open>wav_parse\<close> is the first step of the
  decoder of the spec (section 6 (a)): check the header and read the payload back as
  signed 16-bit little-endian samples. \<open>wav_well_formed\<close> is the spec's contract for a
  container, which every container \<open>wave_write\<close> returns satisfies.
\<close>

definition ascii_bytes :: "string \<Rightarrow> byte list" where
  "ascii_bytes s = map (\<lambda>c. of_nat (of_char c)) s"

definition le16 :: "int16 \<Rightarrow> byte list" where
  "le16 w = le_bytes 2 (unat w)"

definition struct_pack_h :: "int \<Rightarrow> py_error + byte list" where
  "struct_pack_h v =
     (if -32768 \<le> v \<and> v \<le> 32767 then Inr (le16 (word_of_int v)) else Inl StructError)"

fun struct_pack_h_list :: "int list \<Rightarrow> py_error + byte list" where
  "struct_pack_h_list [] = Inr []"
| "struct_pack_h_list (v # vs) =
     (case struct_pack_h v of
        Inl e \<Rightarrow> Inl e
      | Inr b \<Rightarrow> (case struct_pack_h_list vs of Inl e \<Rightarrow> Inl e | Inr bs \<Rightarrow> Inr (b @ bs)))"

definition wav_header :: "nat \<Rightarrow> nat \<Rightarrow> nat \<Rightarrow> nat \<Rightarrow> byte list" where
  "wav_header nchannels sampwidth framerate datalength =
     ascii_bytes ''RIFF'' @ le_bytes 4 (36 + datalength) @ ascii_bytes ''WAVE'' @
     ascii_bytes ''fmt '' @ le_bytes 4 16 @ le_bytes 2 1 @ le_bytes 2 nchannels @
     le_bytes 4 framerate @ le_bytes 4 (nchannels * framerate * sampwidth) @
     le_bytes 2 (nchannels * sampwidth) @ le_bytes 2 (sampwidth * 8) @
     ascii_bytes ''data'' @ le_bytes 4 datalength"

text \<open>
  The header is packed with \<open>struct.pack('<L4s4sLHHLLHH4s', ...)\<close> and
  \<open>struct.pack('<L', datalength)\<close>: each \<open>L\<close> field must be below \<open>2^32\<close> and each
  \<open>H\<close> field below \<open>2^16\<close>.
\<close>

definition wav_fields_fit :: "nat \<Rightarrow> nat \<Rightarrow> nat \<Rightarrow> nat \<Rightarrow> bool" where
  "wav_fields_fit nchannels sampwidth framerate datalength \<longleftrightarrow>
     36 + datalength < 2 ^ 32 \<and> framerate < 2 ^ 32 \<and>
     nchannels * framerate * sampwidth < 2 ^ 32 \<and> nchannels < 2 ^ 16 \<and>
     nchannels * sampwidth < 2 ^ 16 \<and> sampwidth * 8 < 2 ^ 16"

definition wave_write :: "nat \<Rightarrow> nat \<Rightarrow> nat \<Rightarrow> byte list \<Rightarrow> py_error + byte list" where
  "wave_write nchannels sampwidth framerate frames =
     (if wav_fields_fit nchannels sampwidth framerate (length frames)
      then Inr (wav_header nchannels sampwidth framerate (length frames) @ frames)
      else Inl StructError)"

fun decode_h_list :: "byte list \<Rightarrow> int list option" where
  "decode_h_list [] = Some []"
| "decode_h_list [b] = None"
| "decode_h_list (b0 # b1 # bs) =
     map_option (Cons (sint (word_of_nat (le_nat [b0, b1]) :: int16))) (decode_h_list bs)"

definition wav_parse :: "byte list \<Rightarrow> (nat \<times> int list) option" where
  "wav_parse bs =
     (if 44 \<le> length bs \<and> take 4 bs = ascii_bytes ''RIFF'' \<and>
         le_nat (take 4 (drop 4 bs)) = length bs - 8 \<and>
         take 8 (drop 8 bs) = ascii_bytes ''WAVEfmt '' \<and>
         le_nat (take 4 (drop 16 bs)) = 16 \<and> le_nat (take 2 (drop 20 bs)) = 1 \<and>
         le_nat (take 2 (drop 22 bs)) = 1 \<and> le_nat (take 2 (drop 34 bs)) = 16 \<and>
         take 4 (drop 36 bs) = ascii_bytes ''data'' \<and>
         le_nat (take 4 (drop 40 bs)) = length bs - 44
      then map_option (Pair (le_nat (take 4 (drop 24 bs)))) (decode_h_list (drop 44 bs))
      else None)"

text \<open>
  The spec's contract for the container (section 6): a 44-byte header that declares the
  format, channel count, sample rate, byte rate, block align and sample width, followed by
  the payload, with total-size and data-size fields that agree with the file's length.
\<close>

definition wav_well_formed :: "nat \<Rightarrow> nat \<Rightarrow> nat \<Rightarrow> byte list \<Rightarrow> bool" where
  "wav_well_formed nchannels sampwidth framerate bs \<longleftrightarrow>
     44 \<le> length bs \<and> take 4 bs = ascii_bytes ''RIFF'' \<and>
     le_nat (take 4 (drop 4 bs)) = length bs - 8 \<and>
     take 8 (drop 8 bs) = ascii_bytes ''WAVEfmt '' \<and>
     le_nat (take 4 (drop 16 bs)) = 16 \<and> le_nat (take 2 (drop 20 bs)) = 1 \<and>
     le_nat (take 2 (drop 22 bs)) = nchannels \<and> le_nat (take 4 (drop 24 bs)) = framerate \<and>
     le_nat (take 4 (drop 28 bs)) = nchannels * framerate * sampwidth \<and>
     le_nat (take 2 (drop 32 bs)) = nchannels * sampwidth \<and>
     le_nat (take 2 (drop 34 bs)) = sampwidth * 8 \<and>
     take 4 (drop 36 bs) = ascii_bytes ''data'' \<and>
     le_nat (take 4 (drop 40 bs)) = length bs - 44"

subsection \<open>Packing samples\<close>

lemma length_le16 [simp]: "length (le16 w) = 2"
  by (simp add: le16_def)

lemma le16_bytes: "le16 w = [word_of_nat (unat w), word_of_nat (unat w div 256)]"
  by (simp add: le16_def numeral_2_eq_2)

lemma in_int16_range_sint:
  assumes "-32768 \<le> v" and "v \<le> 32767"
  shows "sint (word_of_int v :: int16) = v"
  using assms by (simp add: int_word_sint)

lemma decode_le16 [simp]:
  "sint (word_of_nat (le_nat (le16 w)) :: int16) = sint w"
proof -
  have "unat w < 2 ^ 16" using unsigned_less [of w] by simp
  then show ?thesis by (simp add: le16_def)
qed

lemma struct_pack_h_list_ok:
  assumes "\<forall>v \<in> set vs. -32768 \<le> v \<and> v \<le> 32767"
  shows "struct_pack_h_list vs = Inr (concat (map (\<lambda>v. le16 (word_of_int v)) vs))"
  using assms by (induction vs) (simp_all add: struct_pack_h_def)

lemma struct_pack_h_list_error:
  assumes "v \<in> set vs" and "\<not> (-32768 \<le> v \<and> v \<le> 32767)"
  shows "struct_pack_h_list vs = Inl StructError"
  using assms
  by (induction vs) (auto simp: struct_pack_h_def split: sum.splits)

lemma decode_h_list_le16:
  assumes "\<forall>v \<in> set vs. -32768 \<le> v \<and> v \<le> 32767"
  shows "decode_h_list (concat (map (\<lambda>v. le16 (word_of_int v)) vs)) = Some vs"
  using assms
proof (induction vs)
  case (Cons v vs)
  obtain b0 b1 where le: "le16 (word_of_int v) = [b0, b1]"
    by (simp add: le16_bytes)
  have "sint (word_of_nat (le_nat [b0, b1]) :: int16) = v"
    using decode_le16 [of "word_of_int v"] Cons.prems le in_int16_range_sint by simp
  with Cons le show ?case by simp
qed simp

subsection \<open>Reading the container back\<close>

lemma length_ascii_bytes [simp]: "length (ascii_bytes s) = length s"
  by (simp add: ascii_bytes_def)

lemma length_wav_header [simp]: "length (wav_header nch sw rate len) = 44"
  by (simp add: wav_header_def)

lemma wav_parse_header:
  assumes "wav_fields_fit 1 2 rate (length frames)"
  shows "wav_parse (wav_header 1 2 rate (length frames) @ frames) =
         map_option (Pair rate) (decode_h_list frames)"
proof -
  from assms have fit: "36 + length frames < 4294967296" "rate < 4294967296"
    by (simp_all add: wav_fields_fit_def)
  then show ?thesis
    by (simp add: wav_parse_def wav_header_def ascii_bytes_def)
qed

text \<open>
  C9. Packing in-range samples with \<open>struct.pack('<h'...)\<close> and writing them as a mono
  16-bit container never raises when the header fields fit, and parsing the container
  gives back the sample rate and exactly the samples.
\<close>

theorem wav_write_parse_roundtrip:
  assumes "\<forall>v \<in> set vs. -32768 \<le> v \<and> v \<le> 32767"
    and "wav_fields_fit 1 2 rate (2 * length vs)"
  shows "\<exists>bs. py_bind (struct_pack_h_list vs) (wave_write 1 2 rate) = Inr bs \<and>
              wav_parse bs = Some (rate, vs)"
proof -
  let ?fr = "concat (map (\<lambda>v. le16 (word_of_int v)) vs)"
  have len: "length ?fr = 2 * length vs"
    by (induction vs) simp_all
  have pack: "struct_pack_h_list vs = Inr ?fr"
    using assms(1) by (rule struct_pack_h_list_ok)
  have "wav_fields_fit 1 2 rate (length ?fr)"
    using assms(2) len by simp
  then have "wav_parse (wav_header 1 2 rate (length ?fr) @ ?fr) =
             map_option (Pair rate) (decode_h_list ?fr)"
    by (rule wav_parse_header)
  also have "\<dots> = Some (rate, vs)"
    using assms(1) by (simp add: decode_h_list_le16)
  finally have "wav_parse (wav_header 1 2 rate (length ?fr) @ ?fr) = Some (rate, vs)" .
  with pack assms(2) len show ?thesis by (simp add: wave_write_def)
qed

theorem wav_write_parse_roundtrip_witness:
  "(\<exists>bs. py_bind (struct_pack_h_list [0, -1, -32768, 32767]) (wave_write 1 2 44100) = Inr bs \<and>
         wav_parse bs = Some (44100, [0, -1, -32768, 32767]))"
proof -
  have h1: "\<forall>v \<in> set [0, -1, -32768, 32767::int]. -32768 \<le> v \<and> v \<le> 32767" by simp
  have h2: "wav_fields_fit 1 2 44100 (2 * length [0, -1, -32768, 32767::int])"
    by (simp add: wav_fields_fit_def)
  show ?thesis using wav_write_parse_roundtrip [OF h1 h2] .
qed

subsection \<open>Well-formed containers\<close>

lemma wave_write_wf:
  assumes "wave_write nch sw rate frames = Inr bs"
  shows "wav_well_formed nch sw rate bs \<and> drop 44 bs = frames"
proof -
  from assms have fit: "wav_fields_fit nch sw rate (length frames)"
    and bs: "bs = wav_header nch sw rate (length frames) @ frames"
    by (simp_all add: wave_write_def split: if_splits)
  from fit have "36 + length frames < 4294967296" "rate < 4294967296"
    "nch * rate * sw < 4294967296" "nch < 65536" "nch * sw < 65536" "sw * 8 < 65536"
    by (simp_all add: wav_fields_fit_def)
  then show ?thesis
    by (simp add: bs wav_well_formed_def wav_header_def ascii_bytes_def)
qed

lemma py_bind_wave_write_wf:
  assumes "py_bind m (wave_write nch sw rate) = Inr bs"
  shows "wav_well_formed nch sw rate bs"
proof -
  from assms obtain frames where "wave_write nch sw rate frames = Inr bs"
    by (cases m) simp_all
  then show ?thesis by (simp add: wave_write_wf)
qed

end
