(* ===== verification/Dtmf_Fixed.thy ===== *)
theory Dtmf_Fixed
  imports Dtmf_Table Ascii_Digits Wav_Container
begin

text \<open>
  The pure-Python encoder \<open>src/create_dtmf_wav_fixed.py\<close>, the one whose message
  matches the layer-3 answer of the web application. \<open>generate_dtmf_tone\<close> gives
  \<open>int(duration * sample_rate)\<close> zeros for a key outside \<open>DTMF_TABLE\<close>, and otherwise
  \<open>int(sample_rate * duration)\<close> samples \<open>int((s / 2.0) * 32767)\<close> where \<open>s\<close> is the sum
  of the two sines at \<open>t = i / sample_rate\<close>. \<open>create_dtmf_wav\<close> transcodes the message,
  runs the loop of lines 56-67 (\<open>dtmf_loop\<close>: each digit's tone then a silence of
  \<open>int(silence_duration * sample_rate)\<close> zeros, also after the last digit), packs the
  samples with \<open>struct.pack\<close> and writes the container at 44100 Hz. Its result is the
  file's bytes, or the exception that \<open>struct\<close> raises. Console output is not modelled.
\<close>

definition generate_dtmf_tone :: "nat \<Rightarrow> real \<Rightarrow> int \<Rightarrow> int list" where
  "generate_dtmf_tone digit duration sample_rate =
     (case map_of DTMF_TABLE digit of
        None \<Rightarrow> replicate (py_count (duration * of_int sample_rate)) 0
      | Some (low_freq, high_freq) \<Rightarrow>
          map (\<lambda>i. let t = of_nat i / of_int sample_rate;
                       sample = sin (2 * pi * of_nat low_freq * t) + sin (2 * pi * of_nat high_freq * t)
                   in py_int ((sample / 2) * 32767))
              [0..<py_count (of_int sample_rate * duration)])"

fun dtmf_loop :: "real \<Rightarrow> real \<Rightarrow> int \<Rightarrow> pystr \<Rightarrow> int list \<Rightarrow> int list" where
  "dtmf_loop tone_duration silence_duration sample_rate [] all_samples = all_samples"
| "dtmf_loop tone_duration silence_duration sample_rate (digit # ds) all_samples =
     dtmf_loop tone_duration silence_duration sample_rate ds
       (all_samples @ generate_dtmf_tone digit tone_duration sample_rate @
        replicate (py_count (silence_duration * of_int sample_rate)) 0)"

definition create_dtmf_wav :: "pystr \<Rightarrow> real \<Rightarrow> real \<Rightarrow> py_error + byte list" where
  "create_dtmf_wav message tone_duration silence_duration =
     (let ascii_sequence = text_to_ascii_digits message;
          sample_rate = (44100 :: int);
          all_samples = dtmf_loop tone_duration silence_duration sample_rate ascii_sequence []
      in py_bind (struct_pack_h_list all_samples) (wave_write 1 2 (nat sample_rate)))"

text \<open>\<open>main()\<close>: the message and the default durations 0.2 s and 0.05 s.\<close>

definition main_message :: pystr where
  "main_message = py ''CTF{CRYPTOGRAPHY}''"

definition main_fixed :: "py_error + byte list" where
  "main_fixed = create_dtmf_wav main_message (2 / 10) (5 / 100)"

subsection \<open>The samples of the encoder\<close>

text \<open>
  The samples \<open>create_dtmf_wav\<close> packs: one frame per digit, the digit's tone followed by
  the silence.
\<close>

definition dtmf_frame :: "real \<Rightarrow> real \<Rightarrow> int \<Rightarrow> nat \<Rightarrow> int list" where
  "dtmf_frame tone_duration silence_duration sample_rate digit =
     generate_dtmf_tone digit tone_duration sample_rate @
     replicate (py_count (silence_duration * of_int sample_rate)) 0"

definition encoder_samples :: "pystr \<Rightarrow> real \<Rightarrow> real \<Rightarrow> int list" where
  "encoder_samples message tone_duration silence_duration =
     dtmf_loop tone_duration silence_duration 44100 (text_to_ascii_digits message) []"

lemma dtmf_loop_concat:
  "dtmf_loop td sd sr ds acc = acc @ concat (map (dtmf_frame td sd sr) ds)"
  by (induction ds arbitrary: acc) (simp_all add: dtmf_frame_def)

lemma encoder_samples_frames:
  "encoder_samples msg td sd = concat (map (dtmf_frame td sd 44100) (text_to_ascii_digits msg))"
  by (simp add: encoder_samples_def dtmf_loop_concat)

lemma create_dtmf_wav_samples:
  "create_dtmf_wav msg td sd = py_bind (struct_pack_h_list (encoder_samples msg td sd)) (wave_write 1 2 44100)"
  by (simp add: create_dtmf_wav_def encoder_samples_def Let_def)

lemma length_generate_dtmf_tone [simp]:
  "length (generate_dtmf_tone digit duration sr) = py_count (duration * of_int sr)"
  by (simp add: generate_dtmf_tone_def mult.commute split: option.split)

lemma length_dtmf_frame [simp]:
  "length (dtmf_frame td sd sr digit) = py_count (td * of_int sr) + py_count (sd * of_int sr)"
  by (simp add: dtmf_frame_def)

text \<open>The quantised two-tone sample never leaves [-32767, 32767].\<close>

lemma quantised_tone_bound:
  "-32767 \<le> py_int ((sin a + sin b) / 2 * 32767) \<and> py_int ((sin a + sin b) / 2 * 32767) \<le> 32767"
proof (rule py_int_bounded)
  have "\<bar>sin a + sin b\<bar> \<le> 2"
    using abs_sin_le_one [of a] abs_sin_le_one [of b] by linarith
  then show "\<bar>(sin a + sin b) / 2 * 32767\<bar> \<le> of_int 32767"
    by (simp add: abs_mult)
qed


lemma encoder_samples_range:
  "set (encoder_samples msg td sd) \<subseteq> {-32767..32767}"
proof -
  have "set (generate_dtmf_tone d td 44100) \<subseteq> {-32767..32767}" for d
    using quantised_tone_bound by (auto simp: generate_dtmf_tone_def Let_def split: option.splits)
  then have "set (dtmf_frame td sd 44100 d) \<subseteq> {-32767..32767}" for d
    by (auto simp: dtmf_frame_def)
  then show ?thesis by (auto simp: encoder_samples_frames)
qed

lemma length_encoder_samples:
  "length (encoder_samples msg td sd) =
     length (text_to_ascii_digits msg) * (py_count (td * 44100) + py_count (sd * 44100))"
  by (simp add: encoder_samples_frames length_concat_const)

lemma length_le16_concat [simp]:
  "length (concat (map (\<lambda>v. le16 (word_of_int v)) vs)) = 2 * length vs"
  using length_concat_const [of vs "\<lambda>v. le16 (word_of_int v)" 2] by simp

lemma encoder_pack:
  "struct_pack_h_list (encoder_samples msg td sd) =
     Inr (concat (map (\<lambda>v. le16 (word_of_int v)) (encoder_samples msg td sd)))"
proof -
  have "\<forall>v \<in> set (encoder_samples msg td sd). -32767 \<le> v \<and> v \<le> 32767"
    using encoder_samples_range [of msg td sd] by (auto simp: subset_eq)
  then show ?thesis by (intro struct_pack_h_list_ok) auto
qed

lemma create_dtmf_wav_eq:
  "create_dtmf_wav msg td sd =
     (let samples = encoder_samples msg td sd; n = 2 * length samples
      in if 36 + n < 2 ^ 32
         then Inr (wav_header 1 2 44100 n @ concat (map (\<lambda>v. le16 (word_of_int v)) samples))
         else Inl StructError)"
proof -
  note pack = encoder_pack [of msg td sd]
  show ?thesis
    by (simp add: create_dtmf_wav_samples pack wave_write_def wav_fields_fit_def Let_def)
qed

subsection \<open>Properties of the encoder\<close>

text \<open>
  C3. \<open>create_dtmf_wav\<close> never raises in \<open>struct.pack\<close>: for every message and
  durations it returns the container of the little-endian 16-bit encoding of its samples,
  unless the payload is too large for the 32-bit RIFF size field, where \<open>wave\<close> raises.
\<close>

theorem create_dtmf_wav_result:
  "create_dtmf_wav msg td sd =
     (let samples = encoder_samples msg td sd; n = 2 * length samples
      in if 36 + n < 2 ^ 32
         then Inr (wav_header 1 2 44100 n @ concat (map (\<lambda>v. le16 (word_of_int v)) samples))
         else Inl StructError)"
  by (rule create_dtmf_wav_eq)

text \<open>
  C5. Every sample of a tone lies in [-32767, 32767]: the sum of the two sines is halved
  before it is scaled by 32767 and truncated, so the 16-bit range is never left.
\<close>

theorem generate_dtmf_tone_range:
  "set (generate_dtmf_tone digit duration sr) \<subseteq> {-32767..32767}"
  using quantised_tone_bound
  by (auto simp: generate_dtmf_tone_def Let_def split: option.splits)

text \<open>
  C31. Every symbol of the transcoded message is a key of \<open>DTMF_TABLE\<close>, so the silence
  branch of \<open>generate_dtmf_tone\<close> for an unknown symbol is never taken by the encoder.
\<close>

theorem digits_in_table:
  "set (text_to_ascii_digits msg) \<subseteq> dom (map_of DTMF_TABLE)"
proof
  fix d
  assume "d \<in> set (text_to_ascii_digits msg)"
  then have "is_digit d" by (rule text_to_ascii_digits_digits)
  then have k: "d - 48 < 10" and d: "d = 48 + (d - 48)" by (auto simp: is_digit_def)
  from k have "48 + (d - 48) \<in> dom (map_of DTMF_TABLE)" by (rule decimal_digit_in_table)
  with d show "d \<in> dom (map_of DTMF_TABLE)" by simp
qed

text \<open>
  C32. The scenarios of the spec (section 8) as the pure-Python encoder runs them. With the
  default durations every digit contributes 8820 tone samples and 2205 silence samples, the
  silence included after the last digit. The empty message gives a valid 44-byte container
  whose data section is empty. The message "A" (code point 65) gives the two digits 6 and 5,
  so 22050 samples (0.5 s at 44100 Hz) and a file of 44144 bytes.
\<close>

theorem create_dtmf_wav_scenarios:
  "length (encoder_samples msg (2 / 10) (5 / 100)) = 11025 * length (text_to_ascii_digits msg) \<and>
   create_dtmf_wav [] td sd = Inr (wav_header 1 2 44100 0) \<and> length (wav_header 1 2 44100 0) = 44 \<and>
   text_to_ascii_digits (py ''A'') = py ''65'' \<and>
   length (encoder_samples (py ''A'') (2 / 10) (5 / 100)) = 22050 \<and>
   (\<exists>bs. create_dtmf_wav (py ''A'') (2 / 10) (5 / 100) = Inr bs \<and> length bs = 44144)"
proof -
  have default: "length (encoder_samples msg (2 / 10) (5 / 100)) = 11025 * length (text_to_ascii_digits msg)"
    by (simp add: length_encoder_samples)
  have empty: "create_dtmf_wav [] td sd = Inr (wav_header 1 2 44100 0)"
    by (simp add: create_dtmf_wav_eq encoder_samples_def)
  have digits: "text_to_ascii_digits (py ''A'') = py ''65''"
    by (simp add: py_str_nat_two_digits)
  then have len: "length (encoder_samples (py ''A'') (2 / 10) (5 / 100)) = 22050"
    by (simp add: length_encoder_samples)
  with digits have "\<exists>bs. create_dtmf_wav (py ''A'') (2 / 10) (5 / 100) = Inr bs \<and> length bs = 44144"
    by (simp add: create_dtmf_wav_eq Let_def)
  with default empty digits len show ?thesis by simp
qed

text \<open>
  C4. Every container the pure-Python encoder returns is well formed: mono, 16-bit,
  44100 Hz, with size fields that agree with its length, and its payload is the
  little-endian encoding of the encoder's samples.
\<close>

theorem create_dtmf_wav_well_formed:
  assumes "create_dtmf_wav msg td sd = Inr bs"
  shows "wav_well_formed 1 2 44100 bs \<and>
         drop 44 bs = concat (map (\<lambda>v. le16 (word_of_int v)) (encoder_samples msg td sd))"
proof -
  from assms have "wave_write 1 2 44100 (concat (map (\<lambda>v. le16 (word_of_int v)) (encoder_samples msg td sd))) = Inr bs"
    by (simp add: create_dtmf_wav_samples encoder_pack)
  then show ?thesis by (rule wave_write_wf)
qed

theorem create_dtmf_wav_well_formed_witness:
  "wav_well_formed 1 2 44100 (wav_header 1 2 44100 0) \<and>
   drop 44 (wav_header 1 2 44100 0) =
     concat (map (\<lambda>v. le16 (word_of_int v)) (encoder_samples [] (2 / 10) (5 / 100)))"
proof -
  have h: "create_dtmf_wav [] (2 / 10) (5 / 100) = Inr (wav_header 1 2 44100 0)"
    by (simp add: create_dtmf_wav_eq encoder_samples_def)
  show ?thesis using create_dtmf_wav_well_formed [OF h] .
qed

end
