(* ===== verification/Dtmf_Decoder.thy ===== *)
theory Dtmf_Decoder
  imports Dtmf_Fixed
begin

text \<open>
  The decoder a solver runs on the artifact (spec, section 6): parse the container
  (\<^const>\<open>wav_parse\<close>), cut the samples into frames of the tone-plus-silence length,
  detect the two frequencies of the tone part of each frame, map the pair back to a symbol
  with the inverse table (\<^const>\<open>dtmf_symbol_of\<close>) and regroup the digits into characters
  (\<^const>\<open>decode_printable\<close>). The decoder is not code of the repository; it is modelled
  from the spec. Spectral detection is left as a parameter \<open>detect\<close>: the results below
  hold for any detector that recovers the frequency pair of the tones it is given. The
  segmentation loop \<open>segment\<close> may not return, so it is a \<open>partial_function (option)\<close>;
  the lemmas say when it returns and that it then computes \<^const>\<open>chunks\<close>.
\<close>

text \<open>
  Step (b), segmentation, as the loop a decoder runs over a read position:
  \<open>while pos < len(samples): frames.append(samples[pos:pos + frame_len]); pos += frame_len\<close>.
  Nothing bounds it when \<open>frame_len = 0\<close>, so it is a \<open>partial_function\<close> in the option
  monad: \<open>None\<close> is a loop that never returns.
\<close>

partial_function (option) segment ::
  "nat \<Rightarrow> int list \<Rightarrow> nat \<Rightarrow> int list list \<Rightarrow> int list list option" where
  "segment frame_len samples pos frames =
     (if pos < length samples
      then segment frame_len samples (pos + frame_len) (frames @ [take frame_len (drop pos samples)])
      else Some frames)"

definition decode_symbols ::
  "(int list \<Rightarrow> nat \<times> nat) \<Rightarrow> nat \<Rightarrow> nat \<Rightarrow> int list \<Rightarrow> pystr option" where
  "decode_symbols detect tone_len frame_len samples =
     Option.bind (segment frame_len samples 0 [])
       (\<lambda>frames. those (map (\<lambda>frame. dtmf_symbol_of (detect (take tone_len frame))) frames))"

definition decode_wav ::
  "(int list \<Rightarrow> nat \<times> nat) \<Rightarrow> nat \<Rightarrow> nat \<Rightarrow> byte list \<Rightarrow> pystr option" where
  "decode_wav detect tone_len frame_len bs =
     (case wav_parse bs of
        None \<Rightarrow> None
      | Some (rate, samples) \<Rightarrow>
          Option.bind (decode_symbols detect tone_len frame_len samples) decode_printable)"

lemma those_map_Some: "those (map Some xs) = Some xs"
  by (induction xs) simp_all

subsection \<open>The segmentation loop\<close>

lemma segment_chunks_from:
  assumes "0 < fl"
  shows "segment fl samples pos acc = Some (acc @ chunks fl (drop pos samples))"
proof (induction "length samples - pos" arbitrary: pos acc rule: less_induct)
  case less
  show ?case
  proof (cases "pos < length samples")
    case True
    then obtain x xs where d: "drop pos samples = x # xs" by (cases "drop pos samples") auto
    have "length samples - (pos + fl) < length samples - pos" using True assms by simp
    then have "segment fl samples (pos + fl) (acc @ [take fl (drop pos samples)]) =
               Some ((acc @ [take fl (drop pos samples)]) @ chunks fl (drop (pos + fl) samples))"
      by (rule less)
    moreover have "drop (pos + fl) samples = drop fl (x # xs)" by (simp add: d [symmetric] add.commute)
    ultimately show ?thesis
      using True assms by (subst segment.simps) (simp add: d)
  next
    case False
    then show ?thesis by (subst segment.simps) simp
  qed
qed

lemma segment_returns:
  assumes ret: "segment fl samples pos acc = Some r"
  shows "fl = 0 \<longrightarrow> \<not> pos < length samples"
proof (rule segment.raw_induct [where P = "\<lambda>fl samples pos acc r. fl = 0 \<longrightarrow> \<not> pos < length samples",
                               OF _ ret])
  fix f fl samples pos acc r
  assume IH: "\<And>fl samples pos acc r. f fl samples pos acc = Some r \<Longrightarrow> fl = 0 \<longrightarrow> \<not> pos < length samples"
    and eq: "(if pos < length samples
              then f fl samples (pos + fl) (acc @ [take fl (drop pos samples)])
              else Some acc) = Some r"
  show "fl = 0 \<longrightarrow> \<not> pos < length samples"
  proof (intro impI notI)
    assume z: "fl = 0" and p: "pos < length samples"
    with eq have "f fl samples (pos + fl) (acc @ [take fl (drop pos samples)]) = Some r" by simp
    then have "fl = 0 \<longrightarrow> \<not> pos + fl < length samples" by (rule IH)
    with z p show False by simp
  qed
qed

lemma segment_zero_None:
  assumes "pos < length samples"
  shows "segment 0 samples pos acc = None"
  using assms segment_returns [of 0 samples pos acc] by (cases "segment 0 samples pos acc") auto

lemma decode_symbols_tones:
  assumes "\<forall>d \<in> set ds. length (tone d) = tn \<and> map_of DTMF_TABLE d = Some (detect (tone d))"
    and "0 < tn + sil"
  shows "decode_symbols detect tn (tn + sil) (concat (map (\<lambda>d. tone d @ replicate sil (0::int)) ds)) = Some ds"
proof -
  let ?fr = "\<lambda>d. tone d @ replicate sil (0::int)"
  have "\<forall>c \<in> set (map ?fr ds). length c = tn + sil"
    using assms(1) by auto
  then have ch: "chunks (tn + sil) (concat (map ?fr ds)) = map ?fr ds"
    using assms(2) by (simp add: chunks_concat)
  have "dtmf_symbol_of (detect (take tn (?fr d))) = Some d" if "d \<in> set ds" for d
  proof -
    have "take tn (?fr d) = tone d" using assms(1) that by simp
    with assms(1) that show ?thesis by (simp add: dtmf_symbol_of_table)
  qed
  then have m: "map (\<lambda>frame. dtmf_symbol_of (detect (take tn frame))) (map ?fr ds) = map Some ds"
    by (simp add: map_eq_conv)
  have "segment (tn + sil) (concat (map ?fr ds)) 0 [] = Some (chunks (tn + sil) (concat (map ?fr ds)))"
    using segment_chunks_from [OF assms(2)] by simp
  then have seg: "segment (tn + sil) (concat (map ?fr ds)) 0 [] = Some (map ?fr ds)"
    by (simp only: ch)
  show ?thesis by (simp only: decode_symbols_def seg bind.simps m those_map_Some)
qed

lemma decode_symbols_frames:
  assumes "\<forall>d \<in> set ds. map_of DTMF_TABLE d = Some (detect (generate_dtmf_tone d td 44100))"
    and "py_count (td * 44100) = tn" and "0 < tn + py_count (sd * 44100)"
  shows "decode_symbols detect tn (tn + py_count (sd * 44100))
           (concat (map (dtmf_frame td sd 44100) ds)) = Some ds"
proof -
  have "dtmf_frame td sd 44100 = (\<lambda>d. generate_dtmf_tone d td 44100 @ replicate (py_count (sd * 44100)) 0)"
    by (simp add: dtmf_frame_def fun_eq_iff)
  moreover have "decode_symbols detect tn (tn + py_count (sd * 44100))
      (concat (map (\<lambda>d. generate_dtmf_tone d td 44100 @ replicate (py_count (sd * 44100)) 0) ds)) = Some ds"
    using assms by (intro decode_symbols_tones) simp_all
  ultimately show ?thesis by simp
qed

subsection \<open>Properties of the segmentation\<close>

lemma segment_encoder_samples:
  "segment 11025 (encoder_samples msg (2 / 10) (5 / 100)) 0 [] =
     Some (map (dtmf_frame (2 / 10) (5 / 100) 44100) (text_to_ascii_digits msg))"
proof -
  let ?frs = "map (dtmf_frame (2 / 10) (5 / 100) 44100) (text_to_ascii_digits msg)"
  have "\<forall>c \<in> set ?frs. length c = 11025" by auto
  then have "chunks 11025 (concat ?frs) = ?frs" by (intro chunks_concat) simp_all
  moreover have "segment 11025 (concat ?frs) 0 [] = Some (chunks 11025 (concat ?frs))"
    using segment_chunks_from [of 11025 "concat ?frs" 0 "[]"] by simp
  ultimately show ?thesis by (simp only: encoder_samples_frames)
qed

lemma segment_returns_iff:
  "((\<exists>frames. segment fl samples 0 [] = Some frames) \<longleftrightarrow> 0 < fl \<or> samples = []) \<and>
   (0 < fl \<longrightarrow> segment fl samples 0 [] = Some (chunks fl samples))"
proof (cases "0 < fl")
  case True
  then show ?thesis using segment_chunks_from [OF True, of samples 0 "[]"] by simp
next
  case False
  show ?thesis
  proof (cases "samples = []")
    case True
    with False show ?thesis by (subst segment.simps) simp
  next
    case ne: False
    then have "segment 0 samples 0 [] = None" by (intro segment_zero_None) simp
    with False ne show ?thesis by simp
  qed
qed

text \<open>
  C6. The segmentation loop returns exactly when the frame length is positive or there are
  no samples: a zero frame length on a non-empty sample stream never advances the read
  position and loops for ever. When it returns for a positive frame length, its result is
  the reference segmentation \<^const>\<open>chunks\<close>: consecutive slices of that length, the last
  one possibly shorter. On the pure-Python encoder's samples with the default durations
  and frames of 11025 samples, it returns one frame (tone then silence) per digit.
\<close>

theorem segment_terminates:
  "((\<exists>frames. segment fl samples 0 [] = Some frames) \<longleftrightarrow> 0 < fl \<or> samples = []) \<and>
   (0 < fl \<longrightarrow> segment fl samples 0 [] = Some (chunks fl samples)) \<and>
   segment 11025 (encoder_samples msg (2 / 10) (5 / 100)) 0 [] =
     Some (map (dtmf_frame (2 / 10) (5 / 100) 44100) (text_to_ascii_digits msg))"
  using segment_returns_iff segment_encoder_samples by blast

theorem segment_terminates_witness:
  "segment 2 [1, 2, 3, 4, 5] 0 [] = Some [[1, 2], [3, 4], [5]] \<and> segment 0 [1] 0 [] = None"
proof -
  have "chunks 2 [1, 2, 3, 4, 5::int] = [[1, 2], [3, 4], [5]]" by simp
  moreover have "0 < (2::nat)" by simp
  moreover have "\<not> (0 < (0::nat) \<or> [1::int] = [])" by simp
  ultimately show ?thesis
    using segment_terminates [of 2 "[1, 2, 3, 4, 5]" "[]"] segment_terminates [of 0 "[1]" "[]"]
    by (metis not_Some_eq)
qed

end
