(* ===== verification/Dtmf_Numpy.thy ===== *)
theory Dtmf_Numpy
  imports Dtmf_Fixed
begin

text \<open>
  The numpy encoder \<open>src/create_dtmf_wav.py\<close>. Its tone samples the two sines at
  \<open>np.linspace(0, duration, n, False)\<close> (\<open>n = int(sample_rate * duration)\<close>, times
  \<open>i * duration / n\<close>, which are \<open>i / sample_rate\<close> only when \<open>sample_rate * duration\<close> is
  whole) and divides the tone by its peak \<open>np.max(np.abs(tone))\<close>; after the loop the whole
  buffer is divided by its own peak once more, then scaled by 32767 and converted with
  \<open>astype(np.int16)\<close>, which truncates towards zero. \<open>np_normalize\<close> is that division:
  \<open>np.max\<close> of an empty array raises \<open>ValueError\<close>, and a zero peak makes \<open>0 / 0\<close>, which
  numpy turns into NaN with a warning; the model reports that outcome as
  \<open>InvalidFloat\<close>, since the samples written are then unspecified. The lemmas give the peak of
  each tone, the no-op global normalisation, the range of the int16 samples, the error paths,
  and the layout of the container for the default durations used by the round trip of
  \<open>Spec2Isabelle\<close>.
\<close>

definition linspace :: "real \<Rightarrow> real \<Rightarrow> nat \<Rightarrow> real list" where
  "linspace start stop num = map (\<lambda>i. start + of_nat i * ((stop - start) / of_nat num)) [0..<num]"

definition np_normalize :: "real list \<Rightarrow> py_error + real list" where
  "np_normalize xs =
     (if xs = [] then Inl ValueError
      else if max_abs xs = 0 then Inl InvalidFloat
      else Inr (map (\<lambda>x. x / max_abs xs) xs))"

definition generate_dtmf_tone_np :: "nat \<Rightarrow> real \<Rightarrow> int \<Rightarrow> py_error + real list" where
  "generate_dtmf_tone_np digit duration sample_rate =
     (case map_of DTMF_TABLE_np digit of
        None \<Rightarrow> Inr (replicate (py_count (duration * of_int sample_rate)) 0)
      | Some (low_freq, high_freq) \<Rightarrow>
          (let t = linspace 0 duration (py_count (of_int sample_rate * duration));
               tone = map (\<lambda>t. sin (2 * pi * of_nat low_freq * t) + sin (2 * pi * of_nat high_freq * t)) t
           in np_normalize tone))"

fun np_loop :: "real \<Rightarrow> real \<Rightarrow> int \<Rightarrow> pystr \<Rightarrow> real list \<Rightarrow> py_error + real list" where
  "np_loop tone_duration silence_duration sample_rate [] audio_data = Inr audio_data"
| "np_loop tone_duration silence_duration sample_rate (digit # ds) audio_data =
     py_bind (generate_dtmf_tone_np digit tone_duration sample_rate)
       (\<lambda>tone. np_loop tone_duration silence_duration sample_rate ds
                 (audio_data @ tone @ replicate (py_count (silence_duration * of_int sample_rate)) 0))"

definition to_int16 :: "real \<Rightarrow> int16" where
  "to_int16 x = word_of_int (py_int (x * 32767))"

definition np_samples :: "pystr \<Rightarrow> real \<Rightarrow> real \<Rightarrow> py_error + int16 list" where
  "np_samples message tone_duration silence_duration =
     py_bind (np_loop tone_duration silence_duration 44100 (text_to_ascii_digits message) [])
       (\<lambda>audio_data. py_bind (np_normalize audio_data) (\<lambda>audio_data. Inr (map to_int16 audio_data)))"

definition create_dtmf_wav_np :: "pystr \<Rightarrow> real \<Rightarrow> real \<Rightarrow> py_error + byte list" where
  "create_dtmf_wav_np message tone_duration silence_duration =
     py_bind (np_samples message tone_duration silence_duration)
       (\<lambda>audio_data. wave_write 1 2 44100 (concat (map le16 audio_data)))"

definition main_message_np :: pystr where
  "main_message_np = py ''CTFlean{CRYPTOGRAPHY}''"

definition main_np :: "py_error + byte list" where
  "main_np = create_dtmf_wav_np main_message_np (2 / 10) (5 / 100)"

text \<open>
  The simplification the spec (section 9) allows: one normalisation pass per tone and none
  over the whole buffer.
\<close>

definition np_samples_single_pass :: "pystr \<Rightarrow> real \<Rightarrow> real \<Rightarrow> py_error + int16 list" where
  "np_samples_single_pass message tone_duration silence_duration =
     py_bind (np_loop tone_duration silence_duration 44100 (text_to_ascii_digits message) [])
       (\<lambda>audio_data. Inr (map to_int16 audio_data))"

text \<open>The tone of a symbol at 44100 Hz, where it is computed without error.\<close>

definition np_tone :: "nat \<Rightarrow> real \<Rightarrow> real list" where
  "np_tone d td = (case generate_dtmf_tone_np d td 44100 of Inr t \<Rightarrow> t | Inl _ \<Rightarrow> [])"

subsection \<open>Normalisation\<close>

lemma np_normalize_peak:
  assumes "np_normalize xs = Inr ys"
  shows "max_abs ys = 1 \<and> length ys = length xs"
proof -
  from assms have ne: "xs \<noteq> []" and pos: "0 < max_abs xs" and ys: "ys = map (\<lambda>x. x / max_abs xs) xs"
    by (auto simp: np_normalize_def split: if_splits simp del: max_abs.simps)
      (use max_abs_nonneg [of xs] in linarith)
  then show ?thesis by (simp add: max_abs_map_divide)
qed

lemma np_normalize_unit:
  assumes "xs \<noteq> []" and "max_abs xs = 1"
  shows "np_normalize xs = Inr xs"
  using assms by (simp add: np_normalize_def)

subsection \<open>The tone of one symbol\<close>

lemma DTMF_TABLE_np_freqs:
  assumes "map_of DTMF_TABLE_np d = Some (lo, hi)"
  shows "0 < lo \<and> lo \<le> 1477 \<and> 0 < hi \<and> hi \<le> 1477"
proof -
  from assms have "(d, lo, hi) \<in> set DTMF_TABLE_np" by (rule map_of_SomeD)
  then show ?thesis by (auto simp: DTMF_TABLE_np_def)
qed

lemma two_sines_pos:
  assumes "0 < f1" "f1 \<le> 1477" "0 < f2" "f2 \<le> 1477" "0 < t" "2954 * t < 1"
  shows "0 < sin (2 * pi * f1 * t) + sin (2 * pi * f2 * t)"
proof -
  have "0 < sin (2 * pi * f) " if "0 < f" "2 * f < 1" for f :: real
  proof (rule sin_gt_zero)
    show "0 < 2 * pi * f" using that pi_gt_zero by simp
    have "2 * pi * f = pi * (2 * f)" by simp
    also have "\<dots> < pi * 1" using that pi_gt_zero by (intro mult_strict_left_mono) simp_all
    finally show "2 * pi * f < pi" by simp
  qed
  moreover have "0 < f1 * t" "2 * (f1 * t) < 1" "0 < f2 * t" "2 * (f2 * t) < 1"
  proof -
    have "f1 * t \<le> 1477 * t" "f2 * t \<le> 1477 * t" using assms by (simp_all add: mult_right_mono)
    then show "2 * (f1 * t) < 1" "2 * (f2 * t) < 1" using assms by linarith+
  qed (use assms in simp_all)
  ultimately show ?thesis by (simp add: mult.assoc add_pos_pos)
qed

lemma linspace_step_small:
  assumes "4431 \<le> sr" and "2 \<le> py_count (of_int sr * td)"
  shows "0 < td / of_nat (py_count (of_int sr * td)) \<and>
         2954 * (td / of_nat (py_count (of_int sr * td))) < 1"
proof -
  let ?n = "py_count (of_int sr * td)"
  have fl: "of_nat ?n \<le> of_int sr * td" "of_int sr * td < of_nat ?n + 1"
    using assms(2) by (simp_all add: py_count_floor) linarith+
  have n2: "(2::real) \<le> of_nat ?n" using assms(2) by simp
  have sr: "(4431::real) \<le> of_int sr" using assms(1) by simp
  have td: "0 < td"
  proof (rule ccontr)
    assume "\<not> 0 < td"
    then have "of_int sr * td \<le> 0" using sr by (simp add: mult_nonneg_nonpos)
    with fl n2 show False by linarith
  qed
  have "4431 * td \<le> of_int sr * td" using sr td by (simp add: mult_right_mono)
  with fl n2 have "2954 * td < of_nat ?n" by linarith
  with td n2 show ?thesis by (simp add: field_simps)
qed

lemma tone_np_peak:
  assumes "map_of DTMF_TABLE_np d \<noteq> None" and "4431 \<le> sr" and "2 \<le> py_count (of_int sr * td)"
  shows "\<exists>tone. generate_dtmf_tone_np d td sr = Inr tone \<and>
           length tone = py_count (of_int sr * td) \<and> max_abs tone = 1"
proof -
  let ?n = "py_count (of_int sr * td)"
  from assms(1) obtain lo hi where tb: "map_of DTMF_TABLE_np d = Some (lo, hi)" by auto
  let ?f = "\<lambda>t. sin (2 * pi * of_nat lo * t) + sin (2 * pi * of_nat hi * t)"
  let ?tone = "map ?f (linspace 0 td ?n)"
  have len: "length ?tone = ?n" by (simp add: linspace_def)
  have one: "1 < ?n" using assms(3) by simp
  then have "linspace 0 td ?n ! 1 = td / of_nat ?n" by (simp add: linspace_def)
  with one have t1: "?tone ! 1 = ?f (td / of_nat ?n)" by (simp add: linspace_def)
  have fr: "0 < lo \<and> lo \<le> 1477 \<and> 0 < hi \<and> hi \<le> 1477" using tb by (rule DTMF_TABLE_np_freqs)
  have st: "0 < td / of_nat ?n \<and> 2954 * (td / of_nat ?n) < 1"
    using assms(2,3) by (rule linspace_step_small)
  have "0 < ?f (td / of_nat ?n)"
    using fr st by (intro two_sines_pos) simp_all
  with t1 have pos: "0 < ?tone ! 1" by simp
  have "\<bar>?tone ! 1\<bar> \<le> max_abs ?tone"
    using one len by (intro max_abs_ge nth_mem) simp
  with pos have m: "0 < max_abs ?tone" by linarith
  have ne: "?tone \<noteq> []" using one len by auto
  let ?r = "map (\<lambda>x. x / max_abs ?tone) ?tone"
  have nrm: "np_normalize ?tone = Inr ?r" using ne m by (simp add: np_normalize_def)
  then have "max_abs ?r = 1 \<and> length ?r = length ?tone" by (rule np_normalize_peak)
  moreover have "generate_dtmf_tone_np d td sr = Inr ?r"
    using tb nrm by (simp add: generate_dtmf_tone_np_def Let_def)
  ultimately show ?thesis using len by auto
qed

text \<open>
  C18. Per-tone normalisation: for every symbol of the table, a sample rate above three times
  the highest frequency (1477 Hz) and at least two samples, the numpy tone is computed
  without error, has \<open>int(sample_rate * duration)\<close> samples and peak magnitude exactly 1.
\<close>

theorem generate_dtmf_tone_np_peak:
  assumes "map_of DTMF_TABLE_np d \<noteq> None" and "4431 \<le> sr" and "2 \<le> py_count (of_int sr * td)"
  shows "\<exists>tone. generate_dtmf_tone_np d td sr = Inr tone \<and>
           length tone = py_count (of_int sr * td) \<and> max_abs tone = 1"
  using assms by (rule tone_np_peak)

theorem generate_dtmf_tone_np_peak_witness:
  "\<exists>tone. generate_dtmf_tone_np (of_char (CHR ''1'')) (2 / 10) 44100 = Inr tone \<and>
          length tone = 8820 \<and> max_abs tone = 1"
proof -
  have h1: "map_of DTMF_TABLE_np (of_char (CHR ''1'')) \<noteq> None" by (simp add: DTMF_TABLE_np_def)
  have h2: "4431 \<le> (44100::int)" by simp
  have h3: "2 \<le> py_count (of_int (44100::int) * (2 / 10))" by simp
  have "py_count (of_int (44100::int) * (2 / 10)) = 8820" by simp
  with generate_dtmf_tone_np_peak [OF h1 h2 h3] show ?thesis by simp
qed

text \<open>
  C23. A tone of a single sample is the sum of two sines at time 0, that is 0, and the
  per-tone normalisation divides it by its own peak 0: the numpy encoder produces NaN
  (reported as \<open>InvalidFloat\<close>) where the spec requires the division to be skipped.
\<close>

theorem generate_dtmf_tone_np_single_sample:
  assumes "map_of DTMF_TABLE_np d \<noteq> None" and "py_count (of_int sr * td) = 1"
  shows "generate_dtmf_tone_np d td sr = Inl InvalidFloat"
  using assms by (auto simp: generate_dtmf_tone_np_def linspace_def np_normalize_def Let_def)

theorem generate_dtmf_tone_np_single_sample_witness:
  "generate_dtmf_tone_np (of_char (CHR ''1'')) (1 / 44100) 44100 = Inl InvalidFloat"
proof -
  have h1: "map_of DTMF_TABLE_np (of_char (CHR ''1'')) \<noteq> None" by (simp add: DTMF_TABLE_np_def)
  have h2: "py_count (of_int (44100::int) * (1 / 44100)) = 1" by simp
  show ?thesis using generate_dtmf_tone_np_single_sample [OF h1 h2] .
qed

subsection \<open>The whole message\<close>

lemma digit_in_table_np: "is_digit d \<Longrightarrow> map_of DTMF_TABLE_np d \<noteq> None"
proof -
  assume "is_digit d"
  then have k: "d - 48 < 10" and d: "d = 48 + (d - 48)" by (auto simp: is_digit_def)
  from k have "48 + (d - 48) \<in> dom (map_of DTMF_TABLE)" by (rule decimal_digit_in_table)
  with d show ?thesis by (auto simp: DTMF_TABLE_np_eq)
qed

lemma np_loop_ok:
  assumes "\<forall>d \<in> set ds. \<exists>tone. generate_dtmf_tone_np d td sr = Inr tone \<and> max_abs tone = 1"
  shows "\<exists>out. np_loop td sd sr ds acc = Inr out \<and>
           max_abs out = (if ds = [] then max_abs acc else max (max_abs acc) 1) \<and>
           (ds \<noteq> [] \<longrightarrow> out \<noteq> [])"
  using assms
proof (induction ds arbitrary: acc)
  case (Cons d ds)
  then obtain tone where t: "generate_dtmf_tone_np d td sr = Inr tone" and m: "max_abs tone = 1"
    by auto
  let ?acc = "acc @ tone @ replicate (py_count (sd * of_int sr)) 0"
  have macc: "max_abs ?acc = max (max_abs acc) 1" using m by simp
  have tne: "tone \<noteq> []" using m by auto
  from Cons obtain out where o: "np_loop td sd sr ds ?acc = Inr out"
    and mo: "max_abs out = (if ds = [] then max_abs ?acc else max (max_abs ?acc) 1)"
    and ne: "ds \<noteq> [] \<longrightarrow> out \<noteq> []"
    by auto
  have "out \<noteq> []"
  proof (cases "ds = []")
    case True
    with o have "out = ?acc" by simp
    with tne show ?thesis by simp
  qed (use ne in simp)
  with t o mo macc show ?case by (auto simp: max.assoc)
qed simp

lemma np_tones_ok:
  assumes "2 \<le> py_count (44100 * td)"
  shows "\<forall>d \<in> set (text_to_ascii_digits msg).
           \<exists>tone. generate_dtmf_tone_np d td 44100 = Inr tone \<and> max_abs tone = 1"
proof
  fix d
  assume "d \<in> set (text_to_ascii_digits msg)"
  then have "map_of DTMF_TABLE_np d \<noteq> None"
    by (intro digit_in_table_np text_to_ascii_digits_digits)
  moreover have "4431 \<le> (44100::int)" by simp
  moreover have "2 \<le> py_count (of_int (44100::int) * td)" using assms by simp
  ultimately have "\<exists>tone. generate_dtmf_tone_np d td 44100 = Inr tone \<and>
                     length tone = py_count (of_int (44100::int) * td) \<and> max_abs tone = 1"
    by (rule tone_np_peak)
  then show "\<exists>tone. generate_dtmf_tone_np d td 44100 = Inr tone \<and> max_abs tone = 1"
    by blast
qed

lemma np_samples_single:
  assumes "msg \<noteq> []" and "2 \<le> py_count (44100 * td)"
  shows "np_samples msg td sd = np_samples_single_pass msg td sd \<and>
         (\<exists>audio. np_loop td sd 44100 (text_to_ascii_digits msg) [] = Inr audio \<and>
                  max_abs audio = 1 \<and> np_samples msg td sd = Inr (map to_int16 audio))"
proof -
  have ds: "text_to_ascii_digits msg \<noteq> []"
    using assms(1) by (cases msg) (simp_all add: py_str_nat.simps)
  have "\<exists>out. np_loop td sd 44100 (text_to_ascii_digits msg) [] = Inr out \<and>
          max_abs out = (if text_to_ascii_digits msg = [] then max_abs [] else max (max_abs []) 1) \<and>
          (text_to_ascii_digits msg \<noteq> [] \<longrightarrow> out \<noteq> [])"
    by (rule np_loop_ok) (rule np_tones_ok [OF assms(2)])
  with ds obtain out where o: "np_loop td sd 44100 (text_to_ascii_digits msg) [] = Inr out"
    and m: "max_abs out = 1" and ne: "out \<noteq> []"
    by auto
  have "np_normalize out = Inr out" using ne m by (rule np_normalize_unit)
  with o m show ?thesis by (simp add: np_samples_def np_samples_single_pass_def)
qed




lemma int16_quantise_bounds:
  assumes "\<bar>x\<bar> \<le> 1"
  shows "-32767 \<le> py_int (x * 32767) \<and> py_int (x * 32767) \<le> 32767"
proof -
  have "\<bar>x * 32767\<bar> \<le> of_int 32767" using assms by (simp add: abs_mult)
  then show ?thesis by (rule py_int_bounded)
qed

lemma sint_to_int16:
  assumes "\<bar>x\<bar> \<le> 1"
  shows "sint (to_int16 x) = py_int (x * 32767)"
  using int16_quantise_bounds [OF assms] by (simp add: to_int16_def in_int16_range_sint)

lemma to_int16_range:
  assumes "\<bar>x\<bar> \<le> 1"
  shows "-32767 \<le> sint (to_int16 x) \<and> sint (to_int16 x) \<le> 32767"
  using int16_quantise_bounds [OF assms] sint_to_int16 [OF assms] by simp

lemma np_loop_frames:
  assumes "\<forall>d \<in> set ds. generate_dtmf_tone_np d td sr = Inr (tone d)"
  shows "np_loop td sd sr ds acc =
           Inr (acc @ concat (map (\<lambda>d. tone d @ replicate (py_count (sd * of_int sr)) 0) ds))"
  using assms by (induction ds arbitrary: acc) simp_all

lemma np_tone_default:
  assumes "is_digit d"
  shows "generate_dtmf_tone_np d (2 / 10) 44100 = Inr (np_tone d (2 / 10)) \<and>
         length (np_tone d (2 / 10)) = 8820 \<and> max_abs (np_tone d (2 / 10)) = 1"
proof -
  have "\<exists>tone. generate_dtmf_tone_np d (2 / 10) 44100 = Inr tone \<and>
          length tone = py_count (of_int (44100::int) * (2 / 10)) \<and> max_abs tone = 1"
    by (rule tone_np_peak) (simp_all add: digit_in_table_np [OF assms])
  then show ?thesis by (auto simp: np_tone_def)
qed

lemma np_tone_int16:
  assumes "is_digit d"
  shows "map (\<lambda>x. sint (to_int16 x)) (np_tone d (2 / 10)) = map (\<lambda>x. py_int (x * 32767)) (np_tone d (2 / 10)) \<and>
         (\<forall>x \<in> set (np_tone d (2 / 10)). -32767 \<le> py_int (x * 32767) \<and> py_int (x * 32767) \<le> 32767)"
proof -
  have "max_abs (np_tone d (2 / 10)) \<le> 1" using np_tone_default [OF assms] by simp
  then have "\<forall>x \<in> set (np_tone d (2 / 10)). \<bar>x\<bar> \<le> 1" by (simp add: max_abs_le_iff)
  then show ?thesis using sint_to_int16 int16_quantise_bounds by simp
qed

text \<open>
  With the default durations, the container of a non-empty message holds the samples
  \<open>int(x * 32767)\<close> of the frames tone-then-silence of its digits.
\<close>

lemma create_dtmf_wav_np_default:
  assumes "msg \<noteq> []" and "36 + 22050 * length (text_to_ascii_digits msg) < 2 ^ 32"
  defines "vs \<equiv> concat (map (\<lambda>d. map (\<lambda>x. py_int (x * 32767)) (np_tone d (2 / 10)) @ replicate 2205 0)
                             (text_to_ascii_digits msg))"
  shows "create_dtmf_wav_np msg (2 / 10) (5 / 100) =
           Inr (wav_header 1 2 44100 (2 * length vs) @ concat (map (\<lambda>v. le16 (word_of_int v)) vs)) \<and>
         length vs = 11025 * length (text_to_ascii_digits msg)"
proof -
  let ?ds = "text_to_ascii_digits msg"
  let ?audio = "concat (map (\<lambda>d. np_tone d (2 / 10) @ replicate 2205 0) ?ds)"
  have tones: "\<forall>d \<in> set ?ds. generate_dtmf_tone_np d (2 / 10) 44100 = Inr (np_tone d (2 / 10))"
    using np_tone_default text_to_ascii_digits_digits by blast
  have "np_loop (2 / 10) (5 / 100) 44100 ?ds [] = Inr ?audio"
    using np_loop_frames [OF tones, of "5 / 100" "[]"] by simp
  moreover have h: "2 \<le> py_count (44100 * (2 / 10 :: real))" by simp
  obtain audio where "np_loop (2 / 10) (5 / 100) 44100 ?ds [] = Inr audio"
    and s: "np_samples msg (2 / 10) (5 / 100) = Inr (map to_int16 audio)"
    using np_samples_single [of msg "2 / 10" "5 / 100", OF assms(1) h] by blast
  ultimately have samples: "np_samples msg (2 / 10) (5 / 100) = Inr (map to_int16 ?audio)" by simp
  have q: "map to_int16 ?audio = map word_of_int vs"
    by (simp add: vs_def map_concat comp_def to_int16_def [abs_def])
  have "\<forall>d \<in> set ?ds. length (map (\<lambda>x. py_int (x * 32767)) (np_tone d (2 / 10)) @ replicate 2205 0) = 11025"
    using np_tone_default text_to_ascii_digits_digits by simp
  then have len_vs: "length vs = 11025 * length ?ds"
    unfolding vs_def by (subst length_concat_const [where k = 11025]) simp_all
  have "concat (map le16 (map word_of_int vs :: int16 list)) = concat (map (\<lambda>v. le16 (word_of_int v)) vs)"
    by (simp add: comp_def)
  moreover have "create_dtmf_wav_np msg (2 / 10) (5 / 100) =
                 wave_write 1 2 44100 (concat (map le16 (map word_of_int vs :: int16 list)))"
    by (simp only: create_dtmf_wav_np_def samples q py_bind_Inr)
  ultimately show ?thesis
    using assms(2) len_vs by (simp add: wave_write_def wav_fields_fit_def)
qed



text \<open>
  C21. Every container the numpy encoder returns is well formed: mono, 16-bit, 44100 Hz,
  with size fields that agree with its length, and its payload is the little-endian
  encoding of the int16 samples.
\<close>

theorem create_dtmf_wav_np_well_formed:
  assumes "create_dtmf_wav_np msg td sd = Inr bs"
  shows "wav_well_formed 1 2 44100 bs \<and>
         (\<exists>vs. np_samples msg td sd = Inr vs \<and> drop 44 bs = concat (map le16 vs))"
proof -
  from assms obtain vs where vs: "np_samples msg td sd = Inr vs"
    and w: "wave_write 1 2 44100 (concat (map le16 vs)) = Inr bs"
    by (cases "np_samples msg td sd") (simp_all add: create_dtmf_wav_np_def)
  from w have "wav_well_formed 1 2 44100 bs \<and> drop 44 bs = concat (map le16 vs)"
    by (rule wave_write_wf)
  with vs show ?thesis by blast
qed

theorem create_dtmf_wav_np_well_formed_witness:
  "\<exists>bs. create_dtmf_wav_np (py ''A'') (2 / 10) (5 / 100) = Inr bs \<and> wav_well_formed 1 2 44100 bs"
proof -
  have "py ''A'' \<noteq> []" and "36 + 22050 * length (text_to_ascii_digits (py ''A'')) < (2::nat) ^ 32"
    by (simp_all add: py_str_nat_two_digits)
  then obtain bs where h: "create_dtmf_wav_np (py ''A'') (2 / 10) (5 / 100) = Inr bs"
    using create_dtmf_wav_np_default by blast
  show ?thesis using h create_dtmf_wav_np_well_formed [OF h] by blast
qed

end
