(* ===== verification/Web_App.thy ===== *)
theory Web_App
  imports Ascii_Digits
begin

text \<open>
  The web application \<open>src/app.py\<close>. Its only state is the signed-cookie session of one
  browser: the three keys \<open>layer_n_unlocked\<close>, present or absent, as a record of
  booleans. Each route is a handler from the session and the request to the new session and
  the response; \<open>dispatch\<close> routes a request, \<open>run\<close> serves a list of requests from one
  browser in order. A request body is absent (no JSON) or a JSON value; \<open>get_answer\<close> is
  \<open>request.json.get('answer', '').strip()\<close> with its failures: Flask answers a body that
  is not JSON with 415, and \<open>.get\<close> on a non-object or \<open>.strip\<close> on a non-string raise
  \<open>AttributeError\<close> (500). Duplicate keys of a JSON object keep the last value, as
  Python's \<open>json\<close> does. The MD5 digests of \<open>get_hashes\<close> and the HTML templates are
  not modelled; a response names the template or file it serves.
\<close>

record session =
  layer_1_unlocked :: bool
  layer_2_unlocked :: bool
  layer_3_unlocked :: bool

definition empty_session :: session where
  "empty_session = \<lparr>layer_1_unlocked = False, layer_2_unlocked = False, layer_3_unlocked = False\<rparr>"

datatype json = JStr pystr | JOther | JObj "(pystr \<times> json) list"

datatype request_body = NoJson | JsonBody json

datatype request =
    Index | Layer1 | Hashes | Submit1 request_body | Layer2 | DownloadZip
  | Submit2 request_body | Layer3 | DownloadWav | Submit3 request_body | Reset

datatype response =
    Render string
  | HashesJson
  | Granted pystr string
  | FinalGranted pystr
  | Denied
  | Forbidden string
  | SendFile string
  | ResetDone
  | ServerError py_error

subsection \<open>Configuration\<close>

definition LAYER_1_Y_VALUES :: "(string \<times> pystr) list" where
  "LAYER_1_Y_VALUES = [(''y1'', py ''3728197''), (''y2'', py ''3728224''), (''y3'', py ''3728269'')]"

definition LAYER_1_SECRET :: pystr where "LAYER_1_SECRET = py ''3728192''"
definition LAYER_1_FLAG :: pystr where "LAYER_1_FLAG = py ''Kh4an54ar_R1s35''"
definition LAYER_2_FLAG :: pystr where "LAYER_2_FLAG = py ''Salaar_devaratha_raisaar''"
definition LAYER_2_UNLOCK :: pystr where "LAYER_2_UNLOCK = py ''w4rz0n3_D3v4r4th4''"
definition LAYER_3_FLAG :: pystr where "LAYER_3_FLAG = py ''w4rz0n3{Kh4an54ar_3rup3kk3l4}''"
definition LAYER_3_UNLOCK :: pystr where "LAYER_3_UNLOCK = py ''CTF{CRYPTOGRAPHY}''"

subsection \<open>Handlers\<close>

definition layer_unlocked :: "nat \<Rightarrow> session \<Rightarrow> bool" where
  "layer_unlocked n s =
     (if n = 1 then layer_1_unlocked s else if n = 2 then layer_2_unlocked s
      else if n = 3 then layer_3_unlocked s else False)"

definition check_layer :: "nat \<Rightarrow> session \<Rightarrow> session \<times> response \<Rightarrow> session \<times> response" where
  "check_layer n s handler =
     (if \<not> layer_unlocked n s then (s, Forbidden ''Previous layer not completed'') else handler)"

definition get_answer :: "request_body \<Rightarrow> py_error + pystr" where
  "get_answer body =
     (case body of
        NoJson \<Rightarrow> Inl UnsupportedMediaType
      | JsonBody (JObj kvs) \<Rightarrow>
          (case map_of (rev kvs) (py ''answer'') of
             None \<Rightarrow> Inr []
           | Some (JStr a) \<Rightarrow> Inr (py_strip a)
           | Some _ \<Rightarrow> Inl AttributeError)
      | JsonBody _ \<Rightarrow> Inl AttributeError)"

definition index :: "session \<Rightarrow> session \<times> response" where
  "index s = (s, Render ''index.html'')"

definition layer1 :: "session \<Rightarrow> session \<times> response" where
  "layer1 s = (s\<lparr>layer_1_unlocked := True\<rparr>, Render ''layer1.html'')"

definition get_hashes :: "session \<Rightarrow> session \<times> response" where
  "get_hashes s = (s, HashesJson)"

definition submit_layer1 :: "session \<Rightarrow> request_body \<Rightarrow> session \<times> response" where
  "submit_layer1 s body =
     (case get_answer body of
        Inl e \<Rightarrow> (s, ServerError e)
      | Inr answer \<Rightarrow>
          if answer = LAYER_1_SECRET
          then (s\<lparr>layer_2_unlocked := True\<rparr>, Granted LAYER_1_FLAG ''/layer2'')
          else (s, Denied))"

definition layer2 :: "session \<Rightarrow> session \<times> response" where
  "layer2 s = check_layer 2 s (s, Render ''layer2.html'')"

definition download_zip :: "session \<Rightarrow> session \<times> response" where
  "download_zip s = check_layer 2 s (s, SendFile ''flag_parts.zip'')"

definition submit_layer2 :: "session \<Rightarrow> request_body \<Rightarrow> session \<times> response" where
  "submit_layer2 s body =
     (if \<not> layer_2_unlocked s then (s, Forbidden ''Layer not unlocked'')
      else case get_answer body of
        Inl e \<Rightarrow> (s, ServerError e)
      | Inr answer \<Rightarrow>
          if answer = py ''CTF{'' @ LAYER_2_FLAG @ py ''}''
          then (s\<lparr>layer_3_unlocked := True\<rparr>, Granted LAYER_2_UNLOCK ''/layer3'')
          else (s, Denied))"

definition layer3 :: "session \<Rightarrow> session \<times> response" where
  "layer3 s = check_layer 3 s (s, Render ''layer3.html'')"

definition download_wav :: "session \<Rightarrow> session \<times> response" where
  "download_wav s = check_layer 3 s (s, SendFile ''khansaar_transmission.wav'')"

definition submit_layer3 :: "session \<Rightarrow> request_body \<Rightarrow> session \<times> response" where
  "submit_layer3 s body =
     (if \<not> layer_3_unlocked s then (s, Forbidden ''Layer not unlocked'')
      else case get_answer body of
        Inl e \<Rightarrow> (s, ServerError e)
      | Inr answer \<Rightarrow>
          if answer = LAYER_3_UNLOCK then (s, FinalGranted LAYER_3_FLAG) else (s, Denied))"

definition reset :: "session \<Rightarrow> session \<times> response" where
  "reset s = (empty_session, ResetDone)"

fun dispatch :: "session \<Rightarrow> request \<Rightarrow> session \<times> response" where
  "dispatch s Index = index s"
| "dispatch s Layer1 = layer1 s"
| "dispatch s Hashes = get_hashes s"
| "dispatch s (Submit1 b) = submit_layer1 s b"
| "dispatch s Layer2 = layer2 s"
| "dispatch s DownloadZip = download_zip s"
| "dispatch s (Submit2 b) = submit_layer2 s b"
| "dispatch s Layer3 = layer3 s"
| "dispatch s DownloadWav = download_wav s"
| "dispatch s (Submit3 b) = submit_layer3 s b"
| "dispatch s Reset = reset s"

fun run :: "session \<Rightarrow> request list \<Rightarrow> session \<times> response list" where
  "run s [] = (s, [])"
| "run s (r # rs) =
     (let (s', resp) = dispatch s r; (s'', resps) = run s' rs in (s'', resp # resps))"

inductive reachable :: "session \<Rightarrow> bool" where
  start: "reachable empty_session"
| step: "reachable s \<Longrightarrow> reachable (fst (dispatch s r))"

lemmas handler_defs = index_def layer1_def get_hashes_def submit_layer1_def layer2_def
  download_zip_def submit_layer2_def layer3_def download_wav_def submit_layer3_def reset_def
  check_layer_def layer_unlocked_def

subsection \<open>The abstract progress machine\<close>

text \<open>
  The spec (section 4.3) describes a session that advances one layer on each correct
  answer. Abstractly the code keeps a progress level 0, 2 or 3: a correct layer-1 answer
  raises it to at least 2, a correct layer-2 answer raises it from 2 to 3, \<open>/reset\<close> sets it
  to 0, and nothing else changes it (\<open>/layer1\<close> sets a key that no route reads).
\<close>

fun accepted1 :: "request \<Rightarrow> bool" where
  "accepted1 (Submit1 b) = (get_answer b = Inr LAYER_1_SECRET)"
| "accepted1 _ = False"

fun accepted2 :: "request \<Rightarrow> bool" where
  "accepted2 (Submit2 b) = (get_answer b = Inr (py ''CTF{'' @ LAYER_2_FLAG @ py ''}''))"
| "accepted2 _ = False"

fun progress_step :: "nat \<Rightarrow> request \<Rightarrow> nat" where
  "progress_step p Reset = 0"
| "progress_step p r =
     (if accepted1 r then max p 2 else if accepted2 r \<and> 2 \<le> p then 3 else p)"

definition progress :: "session \<Rightarrow> nat" where
  "progress s = (if layer_3_unlocked s then 3 else if layer_2_unlocked s then 2 else 0)"

text \<open>The JSON body \<open>{"answer": a}\<close> of a browser's submission.\<close>

definition answer_body :: "pystr \<Rightarrow> request_body" where
  "answer_body a = JsonBody (JObj [(py ''answer'', JStr a)])"

text \<open>The requests since the last \<open>/reset\<close> (all of them if there was none).\<close>

definition since_reset :: "request list \<Rightarrow> request list" where
  "since_reset rs = rev (takeWhile (\<lambda>r. r \<noteq> Reset) (rev rs))"

text \<open>
  \<open>/api/layer1/hashes\<close> publishes the MD5 digests of the values \<open>y1, y2, y3\<close> at
  \<open>x = 1, 2, 3\<close>, and the comment of \<open>LAYER_1_SECRET\<close> calls it the constant term
  \<open>a0\<close> of the polynomial. \<open>share_points\<close> reads the published points.
\<close>

definition share_points :: "(rat \<times> rat) list" where
  "share_points = zip [1, 2, 3] (map (\<lambda>(k, v). of_nat (parse_decimal v)) LAYER_1_Y_VALUES)"

lemma dispatch_progress:
  "progress (fst (dispatch s r)) = progress_step (progress s) r"
  by (cases r)
     (auto simp: handler_defs progress_def empty_session_def split: sum.splits if_splits)

lemma run_Cons_fst [simp]: "fst (run s (r # rs)) = fst (run (fst (dispatch s r)) rs)"
  by (simp add: split_def Let_def)

lemma run_Cons_snd [simp]: "snd (run s (r # rs)) = snd (dispatch s r) # snd (run (fst (dispatch s r)) rs)"
  by (simp add: split_def Let_def)

declare run.simps(2) [simp del]

lemma run_progress:
  "progress (fst (run s rs)) = foldl progress_step (progress s) rs"
  by (induction rs arbitrary: s) (simp_all add: dispatch_progress)

text \<open>
  C10. The session machine refines the abstract progress machine: after any sequence of
  requests from any session, the progress level of the session the application holds is
  the level the abstract machine reaches from the start level.
\<close>

theorem session_refines_progress:
  "progress (fst (run s rs)) = foldl progress_step (progress s) rs"
  by (rule run_progress)

subsection \<open>Invariant of the reachable sessions\<close>

lemma dispatch_keeps_order:
  "(layer_3_unlocked s \<longrightarrow> layer_2_unlocked s) \<Longrightarrow>
   layer_3_unlocked (fst (dispatch s r)) \<longrightarrow> layer_2_unlocked (fst (dispatch s r))"
  by (cases r) (auto simp: handler_defs empty_session_def split: sum.splits if_splits)

text \<open>
  C11. In every session reachable from the empty cookie, layer 3 is unlocked only where
  layer 2 is: the layer-3 key is set only by a correct layer-2 answer, which is refused
  without the layer-2 key.
\<close>

theorem reachable_layer_order:
  assumes "reachable s"
  shows "layer_3_unlocked s \<longrightarrow> layer_2_unlocked s"
  using assms
proof (induction rule: reachable.induct)
  case start
  show ?case by (simp add: empty_session_def)
next
  case (step s r)
  from step.IH show ?case by (rule dispatch_keeps_order)
qed

theorem reachable_layer_order_witness:
  "layer_3_unlocked (fst (dispatch (fst (dispatch empty_session (Submit1 (answer_body LAYER_1_SECRET))))
                        (Submit2 (answer_body (py ''CTF{Salaar_devaratha_raisaar}''))))) \<and>
   layer_2_unlocked (fst (dispatch (fst (dispatch empty_session (Submit1 (answer_body LAYER_1_SECRET))))
                        (Submit2 (answer_body (py ''CTF{Salaar_devaratha_raisaar}'')))))"
proof -
  let ?s1 = "fst (dispatch empty_session (Submit1 (answer_body LAYER_1_SECRET)))"
  let ?s2 = "fst (dispatch ?s1 (Submit2 (answer_body (py ''CTF{Salaar_devaratha_raisaar}''))))"
  have r: "reachable ?s2"
    by (intro reachable.step reachable.start)
  have l3: "layer_3_unlocked ?s2"
    by (simp add: handler_defs empty_session_def get_answer_def answer_body_def py_strip_def
                  py_isspace_def LAYER_1_SECRET_def LAYER_2_FLAG_def)
  show ?thesis using reachable_layer_order [OF r] l3 by blast
qed

subsection \<open>History of the requests\<close>

lemma since_reset_snoc [simp]:
  "since_reset (rs @ [x]) = (if x = Reset then [] else since_reset rs @ [x])"
  by (simp add: since_reset_def)

lemma Reset_notin_since_reset: "Reset \<notin> set (since_reset rs)"
  by (auto simp: since_reset_def dest: set_takeWhileD)

lemma foldl_progress_since_reset:
  "foldl progress_step p rs =
     (if Reset \<in> set rs then foldl progress_step 0 (since_reset rs) else foldl progress_step p rs)"
proof (induction rs rule: rev_induct)
  case (snoc x rs)
  show ?case
  proof (cases "x = Reset")
    case False
    with snoc show ?thesis by (cases x) (auto split: if_splits)
  qed simp
qed simp

lemma foldl_progress_since_reset_0:
  "foldl progress_step 0 rs = foldl progress_step 0 (since_reset rs)"
proof (cases "Reset \<in> set rs")
  case False
  then have tw: "takeWhile (\<lambda>r. r \<noteq> Reset) (rev rs) = rev rs"
    by (intro takeWhile_eq_all_conv [THEN iffD2]) auto
  have "since_reset rs = rs"
    by (simp only: since_reset_def tw rev_rev_ident)
  then show ?thesis by simp
qed (subst foldl_progress_since_reset, simp)

lemma snoc_split_iff:
  "(\<exists>as r bs. xs @ [x] = as @ r # bs \<and> P as r) \<longleftrightarrow>
   P xs x \<or> (\<exists>as r bs. xs = as @ r # bs \<and> P as r)"
proof
  assume "\<exists>as r bs. xs @ [x] = as @ r # bs \<and> P as r"
  then obtain as r bs where eq: "xs @ [x] = as @ r # bs" and p: "P as r" by blast
  show "P xs x \<or> (\<exists>as r bs. xs = as @ r # bs \<and> P as r)"
  proof (cases bs rule: rev_cases)
    case Nil
    with eq p show ?thesis by simp
  next
    case (snoc bs' y)
    with eq have "xs = as @ r # bs'" by simp
    with p show ?thesis by blast
  qed
next
  assume "P xs x \<or> (\<exists>as r bs. xs = as @ r # bs \<and> P as r)"
  then show "\<exists>as r bs. xs @ [x] = as @ r # bs \<and> P as r"
    by (metis append.assoc append_Cons append_Nil)
qed

lemma progress_step_Reset_free:
  "x \<noteq> Reset \<Longrightarrow>
   progress_step p x = (if accepted1 x then max p 2 else if accepted2 x \<and> 2 \<le> p then 3 else p)"
  by (cases x) simp_all

lemma level2_iff:
  assumes "Reset \<notin> set xs"
  shows "2 \<le> foldl progress_step 0 xs \<longleftrightarrow> (\<exists>q. q \<in> set xs \<and> accepted1 q)"
  using assms
proof (induction xs rule: rev_induct)
  case (snoc x xs)
  then have "x \<noteq> Reset" and "Reset \<notin> set xs" by auto
  with snoc.IH show ?case by (auto simp: progress_step_Reset_free)
qed simp

lemma progress_step_le_3: "p \<le> 3 \<Longrightarrow> progress_step p x \<le> 3"
  by (cases x) auto

lemma level_le_3: "foldl progress_step 0 xs \<le> 3"
  by (induction xs rule: rev_induct) (simp_all add: progress_step_le_3)

lemma level3_iff:
  assumes "Reset \<notin> set xs"
  shows "foldl progress_step 0 xs = 3 \<longleftrightarrow>
         (\<exists>as r bs. xs = as @ r # bs \<and> accepted2 r \<and> (\<exists>q. q \<in> set as \<and> accepted1 q))"
  using assms
proof (induction xs rule: rev_induct)
  case (snoc x xs)
  let ?p = "foldl progress_step 0 xs"
  let ?H2 = "\<exists>q. q \<in> set xs \<and> accepted1 q"
  let ?H3 = "\<exists>as r bs. xs = as @ r # bs \<and> accepted2 r \<and> (\<exists>q. q \<in> set as \<and> accepted1 q)"
  from snoc.prems have x: "x \<noteq> Reset" and xs: "Reset \<notin> set xs" by auto
  have IH: "?p = 3 \<longleftrightarrow> ?H3" using xs by (rule snoc.IH)
  have two: "2 \<le> ?p \<longleftrightarrow> ?H2" using xs by (rule level2_iff)
  have le: "?p \<le> 3" by (rule level_le_3)
  have rhs: "(\<exists>as r bs. xs @ [x] = as @ r # bs \<and> accepted2 r \<and> (\<exists>q. q \<in> set as \<and> accepted1 q))
             \<longleftrightarrow> (accepted2 x \<and> ?H2) \<or> ?H3"
    by (rule snoc_split_iff)
  have H32: "?H3 \<Longrightarrow> ?H2" by auto
  have only: "\<not> (accepted1 x \<and> accepted2 x)" by (cases x) simp_all
  have step: "foldl progress_step 0 (xs @ [x]) = progress_step ?p x" by simp
  show ?case
  proof (cases "accepted1 x")
    case True
    with only le IH show ?thesis
      by (simp only: rhs step progress_step_Reset_free [OF x]) auto
  next
    case False
    show ?thesis
    proof (cases "accepted2 x")
      case True
      with False two IH H32 show ?thesis
        by (simp only: rhs step progress_step_Reset_free [OF x]) auto
    next
      case n2: False
      with False IH show ?thesis
        by (simp only: rhs step progress_step_Reset_free [OF x]) auto
    qed
  qed
qed simp

lemma progress_empty [simp]: "progress empty_session = 0"
  by (simp add: progress_def empty_session_def)

lemma download_wav_served_iff:
  "snd (dispatch s DownloadWav) = SendFile ''khansaar_transmission.wav'' \<longleftrightarrow> progress s = 3"
  by (simp add: handler_defs progress_def)

text \<open>
  C7. The audio file is served to a browser exactly when, since its last \<open>/reset\<close>, it
  submitted a correct layer-2 answer after a correct layer-1 answer; no other sequence of
  requests from a fresh session unlocks the download.
\<close>

theorem wav_served_iff_history:
  "snd (dispatch (fst (run empty_session rs)) DownloadWav) = SendFile ''khansaar_transmission.wav'' \<longleftrightarrow>
   (\<exists>as r bs. since_reset rs = as @ r # bs \<and> accepted2 r \<and> (\<exists>q. q \<in> set as \<and> accepted1 q))"
proof -
  let ?S = "fst (run empty_session rs)"
  have a: "snd (dispatch ?S DownloadWav) = SendFile ''khansaar_transmission.wav'' \<longleftrightarrow> progress ?S = 3"
    by (rule download_wav_served_iff)
  have b: "progress ?S = foldl progress_step 0 (since_reset rs)"
    by (simp add: run_progress foldl_progress_since_reset_0 [of rs])
  have c: "foldl progress_step 0 (since_reset rs) = 3 \<longleftrightarrow>
           (\<exists>as r bs. since_reset rs = as @ r # bs \<and> accepted2 r \<and> (\<exists>q. q \<in> set as \<and> accepted1 q))"
    using Reset_notin_since_reset by (rule level3_iff)
  from a b c show ?thesis by (simp only:)
qed

text \<open>
  C15. The effect of every route on the session: \<open>/layer1\<close> sets \<open>layer_1_unlocked\<close>, a correct
  layer-1 answer sets \<open>layer_2_unlocked\<close>, a correct layer-2 answer sets \<open>layer_3_unlocked\<close>
  when layer 2 is unlocked, \<open>/reset\<close> clears the session, and every other request, errors
  and wrong answers included, leaves it unchanged.
\<close>

theorem dispatch_session_effect:
  "fst (dispatch s r) =
     (case r of
        Layer1 \<Rightarrow> s\<lparr>layer_1_unlocked := True\<rparr>
      | Submit1 b \<Rightarrow> if accepted1 r then s\<lparr>layer_2_unlocked := True\<rparr> else s
      | Submit2 b \<Rightarrow> if layer_2_unlocked s \<and> accepted2 r then s\<lparr>layer_3_unlocked := True\<rparr> else s
      | Reset \<Rightarrow> empty_session
      | _ \<Rightarrow> s)"
  by (cases r) (auto simp: handler_defs check_layer_def split: sum.split)

text \<open>
  C16. From every session, answering the three layers correctly in order yields both unlock
  codes and then the final flag: no state of the cookie blocks a solver.
\<close>

theorem final_flag_from_any_session:
  "snd (run s [Submit1 (answer_body LAYER_1_SECRET),
               Submit2 (answer_body (py ''CTF{Salaar_devaratha_raisaar}'')),
               Submit3 (answer_body LAYER_3_UNLOCK)]) =
   [Granted LAYER_1_FLAG ''/layer2'', Granted LAYER_2_UNLOCK ''/layer3'', FinalGranted LAYER_3_FLAG]"
  by (simp add: handler_defs get_answer_def answer_body_def py_strip_def py_isspace_def
                LAYER_1_SECRET_def LAYER_2_FLAG_def LAYER_3_UNLOCK_def)

text \<open>
  C36. The key \<open>layer_1_unlocked\<close> that \<open>/layer1\<close> sets is read by no route: every
  response, and the progress of the session, are the same whatever its value.
\<close>

theorem layer_1_key_irrelevant:
  "snd (dispatch (s\<lparr>layer_1_unlocked := b\<rparr>) r) = snd (dispatch s r) \<and>
   progress (fst (dispatch (s\<lparr>layer_1_unlocked := b\<rparr>) r)) = progress (fst (dispatch s r))"
  by (cases r) (auto simp: handler_defs progress_def split: sum.splits)


text \<open>
  C38. Answers are compared after \<open>strip()\<close>: with layer 3 unlocked, the layer-3 answer
  surrounded by spaces and a newline is accepted.
\<close>

theorem submit_layer3_strips:
  assumes "layer_3_unlocked s"
  shows "submit_layer3 s (answer_body (py '' CTF{CRYPTOGRAPHY} '' @ [10])) = (s, FinalGranted LAYER_3_FLAG)"
  using assms
  by (simp add: submit_layer3_def get_answer_def answer_body_def py_strip_def py_isspace_def
                LAYER_3_UNLOCK_def)

theorem submit_layer3_strips_witness:
  "submit_layer3 (empty_session\<lparr>layer_3_unlocked := True\<rparr>)
     (answer_body (py '' CTF{CRYPTOGRAPHY} '' @ [10])) =
   (empty_session\<lparr>layer_3_unlocked := True\<rparr>, FinalGranted LAYER_3_FLAG)"
proof -
  have h: "layer_3_unlocked (empty_session\<lparr>layer_3_unlocked := True\<rparr>)" by simp
  show ?thesis using submit_layer3_strips [OF h] .
qed

subsection \<open>The layer-1 shares\<close>

lemma share_points_eq: "share_points = [(1, 3728197), (2, 3728224), (3, 3728269)]"
  by (simp add: share_points_def LAYER_1_Y_VALUES_def parse_decimal_def)

text \<open>
  C39. Every polynomial of degree at most two through the three published points has
  constant term 3728188, so the accepted answer \<open>LAYER_1_SECRET\<close> = 3728192 is not the
  \<open>a0\<close> of the shares.
\<close>

theorem layer1_shares_constant_term:
  assumes "\<forall>(x, y) \<in> set share_points. a0 + a1 * x + a2 * x ^ 2 = y"
  shows "a0 = 3728188 \<and> a0 \<noteq> of_nat (parse_decimal LAYER_1_SECRET)"
proof -
  from assms have "a0 + a1 + a2 = 3728197" and "a0 + 2 * a1 + 4 * a2 = 3728224"
    and "a0 + 3 * a1 + 9 * a2 = 3728269"
    by (simp_all add: share_points_eq)
  then have "a0 = 3728188" by linarith
  moreover have "parse_decimal LAYER_1_SECRET = 3728192"
    by (simp add: LAYER_1_SECRET_def parse_decimal_def)
  ultimately show ?thesis by simp
qed

theorem layer1_shares_constant_term_witness:
  "(3728188 :: rat) = 3728188 \<and> (3728188 :: rat) \<noteq> of_nat (parse_decimal LAYER_1_SECRET)"
proof -
  have h: "\<forall>(x, y) \<in> set share_points. (3728188 :: rat) + 0 * x + 9 * x ^ 2 = y"
    by (simp add: share_points_eq)
  show ?thesis using layer1_shares_constant_term [OF h] .
qed

end
