(* ===== verification/Flask_Session.thy ===== *)
theory Flask_Session
  imports Web_App
begin

text \<open>
  How \<open>src/app.py\<close> keeps its session between requests: Flask's default cookie session.
  The session travels in a cookie, signed with \<open>app.secret_key\<close> (line 8:
  \<open>secrets.token_hex(32)\<close>, drawn afresh each time the process starts). On a request Flask
  opens the session from the cookie; a missing cookie or one whose signature does not verify
  gives a new empty session. After the handler, Flask saves it: an empty session that was
  modified deletes the cookie, a non-empty modified one sets the cookie to the session and its
  signature, and an unmodified one leaves the browser's cookie as it was. The handlers modify
  the session when they assign to it (\<open>/layer1\<close>, a correct answer) or clear it (\<open>/reset\<close>).

  The signature scheme (itsdangerous' HMAC) is not modelled: it is the parameter
  \<open>sign :: 'k \<Rightarrow> session \<Rightarrow> 'g\<close>, and the one property of it a lemma needs is stated as
  that lemma's hypothesis. Timestamps in the signature and the JSON serialisation are left
  out: they do not change which session a cookie opens to.
\<close>

type_synonym 'g cookie = "(session \<times> 'g) option"

definition open_session :: "('k \<Rightarrow> session \<Rightarrow> 'g) \<Rightarrow> 'k \<Rightarrow> 'g cookie \<Rightarrow> session" where
  "open_session sign key c =
     (case c of
        None \<Rightarrow> empty_session
      | Some (s, sg) \<Rightarrow> if sg = sign key s then s else empty_session)"

definition session_modified :: "session \<Rightarrow> request \<Rightarrow> session \<Rightarrow> bool" where
  "session_modified s r s' \<longleftrightarrow> r = Layer1 \<or> r = Reset \<or> s' \<noteq> s"

text \<open>
  The \<open>Set-Cookie\<close> header of the response: none for an unmodified session, a deletion
  (\<open>Some None\<close>) for a modified empty one, and the signed session otherwise. The browser
  applies it to the cookie it holds when the response arrives.
\<close>

definition set_cookie :: "('k \<Rightarrow> session \<Rightarrow> 'g) \<Rightarrow> 'k \<Rightarrow> bool \<Rightarrow> session \<Rightarrow> 'g cookie option" where
  "set_cookie sign key modified s =
     (if \<not> modified then None
      else if s = empty_session then Some None
      else Some (Some (s, sign key s)))"

definition apply_set_cookie :: "'g cookie \<Rightarrow> 'g cookie option \<Rightarrow> 'g cookie" where
  "apply_set_cookie c h = (case h of None \<Rightarrow> c | Some c' \<Rightarrow> c')"

definition save_session ::
  "('k \<Rightarrow> session \<Rightarrow> 'g) \<Rightarrow> 'k \<Rightarrow> 'g cookie \<Rightarrow> bool \<Rightarrow> session \<Rightarrow> 'g cookie" where
  "save_session sign key c modified s = apply_set_cookie c (set_cookie sign key modified s)"

text \<open>One HTTP request of a browser that sends its cookie and stores the one it gets back.\<close>

definition http_request ::
  "('k \<Rightarrow> session \<Rightarrow> 'g) \<Rightarrow> 'k \<Rightarrow> 'g cookie \<Rightarrow> request \<Rightarrow> 'g cookie \<times> response" where
  "http_request sign key c r =
     (let s = open_session sign key c; (s', resp) = dispatch s r
      in (save_session sign key c (session_modified s r s') s', resp))"

fun browser_run ::
  "('k \<Rightarrow> session \<Rightarrow> 'g) \<Rightarrow> 'k \<Rightarrow> 'g cookie \<Rightarrow> request list \<Rightarrow> 'g cookie \<times> response list" where
  "browser_run sign key c [] = (c, [])"
| "browser_run sign key c (r # rs) =
     (let (c', resp) = http_request sign key c r; (c'', resps) = browser_run sign key c' rs
      in (c'', resp # resps))"

text \<open>
  The life of the server as one browser sees it: requests, and restarts of the process,
  each of which runs line 8 again and so installs a new secret key.
\<close>

datatype 'k server_event = Request request | Restart 'k

fun deploy ::
  "('k \<Rightarrow> session \<Rightarrow> 'g) \<Rightarrow> 'k \<Rightarrow> 'g cookie \<Rightarrow> 'k server_event list \<Rightarrow> 'g cookie \<times> response list" where
  "deploy sign key c [] = (c, [])"
| "deploy sign key c (Request r # evs) =
     (let (c', resp) = http_request sign key c r; (c'', resps) = deploy sign key c' evs
      in (c'', resp # resps))"
| "deploy sign key c (Restart key' # evs) = deploy sign key' c evs"

text \<open>
  Two requests a browser sends at once (the development server is threaded): both carry
  the cookie the browser holds, so both handlers open the same session; the responses
  arrive in order, and each \<open>Set-Cookie\<close> replaces the cookie held at that moment.
\<close>

definition concurrent_requests ::
  "('k \<Rightarrow> session \<Rightarrow> 'g) \<Rightarrow> 'k \<Rightarrow> 'g cookie \<Rightarrow> request \<Rightarrow> request \<Rightarrow> 'g cookie \<times> response list" where
  "concurrent_requests sign key c r1 r2 =
     (let s = open_session sign key c;
          (s1, resp1) = dispatch s r1;
          (s2, resp2) = dispatch s r2;
          c1 = apply_set_cookie c (set_cookie sign key (session_modified s r1 s1) s1);
          c2 = apply_set_cookie c1 (set_cookie sign key (session_modified s r2 s2) s2)
      in (c2, [resp1, resp2]))"

text \<open>A cookie the server with this key could have issued.\<close>

definition issued_by :: "('k \<Rightarrow> session \<Rightarrow> 'g) \<Rightarrow> 'k \<Rightarrow> 'g cookie \<Rightarrow> bool" where
  "issued_by sign key c \<longleftrightarrow> c = None \<or> (\<exists>s. c = Some (s, sign key s))"

subsection \<open>Opening what was saved\<close>

lemma open_save_session:
  assumes "open_session sign key c = s" and "\<not> modified \<longrightarrow> s' = s"
  shows "open_session sign key (save_session sign key c modified s') = s'"
  using assms by (auto simp: save_session_def set_cookie_def apply_set_cookie_def open_session_def)

lemma http_request_session:
  assumes "open_session sign key c = s"
  shows "open_session sign key (fst (http_request sign key c r)) = fst (dispatch s r) \<and>
         snd (http_request sign key c r) = snd (dispatch s r)"
proof -
  obtain s' resp where d: "dispatch s r = (s', resp)" by fastforce
  have "open_session sign key (save_session sign key c (session_modified s r s') s') = s'"
    using assms by (intro open_save_session) (auto simp: session_modified_def)
  with assms d show ?thesis by (simp add: http_request_def)
qed

lemma browser_run_session:
  assumes "open_session sign key c = s"
  shows "snd (browser_run sign key c rs) = snd (run s rs) \<and>
         open_session sign key (fst (browser_run sign key c rs)) = fst (run s rs)"
  using assms
proof (induction rs arbitrary: c s)
  case (Cons r rs)
  obtain c' resp where h: "http_request sign key c r = (c', resp)" by fastforce
  from http_request_session [OF Cons.prems, of r] h
  have o: "open_session sign key c' = fst (dispatch s r)" and rp: "resp = snd (dispatch s r)" by simp_all
  from Cons.IH [OF o] h rp show ?case
    by (simp add: case_prod_beta run_Cons_fst run_Cons_snd)
qed simp

lemma issued_by_save:
  assumes "issued_by sign key c"
  shows "issued_by sign key (save_session sign key c m s)"
  using assms by (auto simp: issued_by_def save_session_def set_cookie_def apply_set_cookie_def)

lemma issued_by_browser_run:
  assumes "issued_by sign key c"
  shows "issued_by sign key (fst (browser_run sign key c rs))"
  using assms
proof (induction rs arbitrary: c)
  case (Cons r rs)
  have "issued_by sign key (fst (http_request sign key c r))"
    using Cons.prems by (simp add: http_request_def Let_def case_prod_beta issued_by_save)
  then show ?case using Cons.IH by (simp add: case_prod_beta)
qed simp

lemma open_other_key:
  assumes "issued_by sign key c" and "\<forall>s. sign key' s \<noteq> sign key s"
  shows "open_session sign key' c = empty_session"
proof (cases c)
  case None
  then show ?thesis by (simp add: open_session_def)
next
  case (Some p)
  with assms(1) obtain s where c: "c = Some (s, sign key s)" by (auto simp: issued_by_def)
  from assms(2) have "sign key s \<noteq> sign key' s" by metis
  with c show ?thesis by (simp add: open_session_def)
qed

lemma deploy_requests:
  "deploy sign key c (map Request rs) = browser_run sign key c rs"
  by (induction rs arbitrary: c) simp_all

lemma deploy_append_requests:
  "deploy sign key c (map Request rs @ evs) =
     (let (c', resps) = browser_run sign key c rs; (c'', resps') = deploy sign key c' evs
      in (c'', resps @ resps'))"
  by (induction rs arbitrary: c) (simp_all add: case_prod_beta)

subsection \<open>Properties of the cookie session\<close>





text \<open>
  C14. Concurrent requests lose unlocks: when a browser with layer 2 unlocked submits the
  correct layer-2 answer and, at the same time, opens \<open>/layer1\<close>, and the \<open>/layer1\<close>
  response arrives last, the browser is told layer 3 is unlocked but keeps a cookie whose
  session has it locked. The session is last-writer-wins, not monotonic.
\<close>

theorem concurrent_unlock_lost:
  assumes "layer_2_unlocked s" and "\<not> layer_3_unlocked s"
  shows "snd (concurrent_requests sign key (Some (s, sign key s))
                (Submit2 (answer_body (py ''CTF{Salaar_devaratha_raisaar}''))) Layer1) =
           [Granted LAYER_2_UNLOCK ''/layer3'', Render ''layer1.html''] \<and>
         \<not> layer_3_unlocked (open_session sign key (fst (concurrent_requests sign key (Some (s, sign key s))
                (Submit2 (answer_body (py ''CTF{Salaar_devaratha_raisaar}''))) Layer1)))"
proof -
  have a: "get_answer (answer_body (py ''CTF{Salaar_devaratha_raisaar}'')) =
           Inr (py ''CTF{'' @ LAYER_2_FLAG @ py ''}'')"
    by (simp add: get_answer_def answer_body_def LAYER_2_FLAG_def py_strip_def py_isspace_def)
  have ne: "s\<lparr>layer_1_unlocked := True\<rparr> \<noteq> empty_session"
    using assms(1) by (cases s) (simp add: empty_session_def)
  show ?thesis
    using assms a ne
    by (simp add: concurrent_requests_def open_session_def handler_defs session_modified_def
                  set_cookie_def apply_set_cookie_def Let_def)
qed

theorem concurrent_unlock_lost_witness:
  "snd (concurrent_requests (\<lambda>k s. (k, s)) (1::nat)
          (Some (empty_session\<lparr>layer_2_unlocked := True\<rparr>, (1, empty_session\<lparr>layer_2_unlocked := True\<rparr>)))
          (Submit2 (answer_body (py ''CTF{Salaar_devaratha_raisaar}''))) Layer1) =
     [Granted LAYER_2_UNLOCK ''/layer3'', Render ''layer1.html''] \<and>
   \<not> layer_3_unlocked (open_session (\<lambda>k s. (k, s)) (1::nat)
          (fst (concurrent_requests (\<lambda>k s. (k, s)) (1::nat)
             (Some (empty_session\<lparr>layer_2_unlocked := True\<rparr>, (1, empty_session\<lparr>layer_2_unlocked := True\<rparr>)))
             (Submit2 (answer_body (py ''CTF{Salaar_devaratha_raisaar}''))) Layer1)))"
proof -
  have h1: "layer_2_unlocked (empty_session\<lparr>layer_2_unlocked := True\<rparr>)"
    and h2: "\<not> layer_3_unlocked (empty_session\<lparr>layer_2_unlocked := True\<rparr>)"
    by (simp_all add: empty_session_def)
  show ?thesis using concurrent_unlock_lost [OF h1 h2, of "\<lambda>k s. (k, s)" "1::nat"] by simp
qed

end
