(* ===== verification/Zip_Challenge.thy ===== *)
theory Zip_Challenge
  imports Ascii_Digits "HOL-Library.List_Lexorder"
begin

text \<open>
  \<open>split_flag\<close> of \<open>src/create_zip_challenge.py\<close>, which cuts the layer-2 flag into the
  contents of the fourteen archives. \<open>len(flag) // parts\<close> and \<open>len(flag) % parts\<close> are
  Python's floor division and modulo, which HOL's \<open>div\<close> and \<open>mod\<close> on \<open>int\<close> are; a zero
  \<open>parts\<close> raises \<open>ZeroDivisionError\<close>. The loop over \<open>range(parts)\<close> is \<open>split_loop\<close>,
  counting the iterations left; \<open>flag[start:end]\<close> is \<open>py_slice\<close>. The rest of \<open>main()\<close>
  is modelled by its effect: the archives it writes (path, member name, content) and the
  entries (source path, archive name) of the master archive; \<open>ZipFile.write\<close> of a missing
  file raises \<open>FileNotFoundError\<close>. Strings are ordered by \<open>List_Lexorder\<close>, which is
  Python's order on \<open>str\<close>. \<open>create_small_zip\<close>, which \<open>main()\<close> never calls, runs over a
  model of the \<open>zipfile\<close> writer. Compression and the console output are not modelled.
\<close>

definition FLAG :: pystr where
  "FLAG = py ''CTF{Salaar_devaratha_raisaar}''"

fun split_loop :: "pystr \<Rightarrow> int \<Rightarrow> int \<Rightarrow> nat \<Rightarrow> nat \<Rightarrow> int \<Rightarrow> pystr list \<Rightarrow> pystr list" where
  "split_loop flag chunk_size remainder i 0 start chunks' = chunks'"
| "split_loop flag chunk_size remainder i (Suc k) start chunks' =
     (let end = start + chunk_size + (if int i < remainder then 1 else 0)
      in split_loop flag chunk_size remainder (Suc i) k end (chunks' @ [py_slice flag start end]))"

definition split_flag :: "pystr \<Rightarrow> int \<Rightarrow> py_error + pystr list" where
  "split_flag flag parts =
     (if parts = 0 then Inl ZeroDivisionError
      else let chunk_size = int (length flag) div parts;
               remainder = int (length flag) mod parts
           in Inr (split_loop flag chunk_size remainder 0 (nat parts) 0 []))"

text \<open>\<open>main()\<close>: \<open>parts = split_flag(FLAG, 14)\<close>.\<close>

definition zip_parts :: "py_error + pystr list" where
  "zip_parts = split_flag FLAG 14"

text \<open>\<open>f'{i:02d}'\<close>: the decimal digits of \<open>i\<close>, padded with zeros to two characters.\<close>

definition py_format_02d :: "nat \<Rightarrow> pystr" where
  "py_format_02d i = (let s = py_str_nat i in replicate (2 - length s) 48 @ s)"

definition zip_name :: "nat \<Rightarrow> pystr" where
  "zip_name i = py ''challenges/flag_parts/flag'' @ py_format_02d i @ py ''.zip''"

definition flag_filename :: "nat \<Rightarrow> pystr" where
  "flag_filename i = py ''flag'' @ py_format_02d i"

definition master_member :: "nat \<Rightarrow> pystr" where
  "master_member i = py ''flag_parts/flag'' @ py_format_02d i @ py ''.zip''"

text \<open>
  The loop of lines 61-78: for part \<open>i\<close>, the archive \<open>zip_name i\<close> holding the member
  \<open>flag_filename i\<close> with the part as content (the plain file is written, archived and removed).
\<close>

definition zip_archives :: "pystr list \<Rightarrow> (pystr \<times> pystr \<times> pystr) list" where
  "zip_archives parts = map (\<lambda>(i, part). (zip_name i, flag_filename i, part)) (zip [0..<length parts] parts)"

text \<open>The master archive of lines 82-85: \<open>challenges/flag_parts/flagNN.zip\<close> as \<open>flag_parts/flagNN.zip\<close>.\<close>

definition master_entries :: "(pystr \<times> pystr) list" where
  "master_entries = map (\<lambda>i. (py ''challenges/'' @ master_member i, master_member i)) [0..<14]"

definition zip_main :: "py_error + (pystr \<times> pystr \<times> pystr) list \<times> (pystr \<times> pystr) list" where
  "zip_main =
     py_bind (split_flag FLAG 14) (\<lambda>parts.
       let archives = zip_archives parts
       in if set (map fst master_entries) \<subseteq> set (map fst archives)
          then Inr (archives, master_entries) else Inl FileNotFoundError)"

subsection \<open>\<open>create_small_zip\<close>\<close>

text \<open>
  A \<open>zipfile.ZipFile\<close> opened for writing, as far as this script uses it: the path, the
  members written so far (archive name, content) and the password set by \<open>setpassword\<close>.
  \<open>setpassword\<close> only records the password used to extract encrypted members, \<open>write\<close>
  stores a member unencrypted, and closing writes the path's archive from the members.
  This is library behaviour, stated here as the interface the script relies on.
\<close>

record zip_writer =
  zw_path :: pystr
  zw_members :: "(pystr \<times> pystr) list"
  zw_pwd :: "pystr option"

definition zip_open :: "pystr \<Rightarrow> zip_writer" where
  "zip_open path = \<lparr>zw_path = path, zw_members = [], zw_pwd = None\<rparr>"

definition zip_setpassword :: "zip_writer \<Rightarrow> pystr \<Rightarrow> zip_writer" where
  "zip_setpassword zf pwd = zf\<lparr>zw_pwd := Some pwd\<rparr>"

definition zip_write :: "zip_writer \<Rightarrow> pystr \<Rightarrow> pystr \<Rightarrow> zip_writer" where
  "zip_write zf arcname content = zf\<lparr>zw_members := zw_members zf @ [(arcname, content)]\<rparr>"

definition zip_close :: "zip_writer \<Rightarrow> pystr \<times> (pystr \<times> pystr) list" where
  "zip_close zf = (zw_path zf, zw_members zf)"

text \<open>
  Lines 31-47: the content goes through the temporary file \<open>temp_flag.txt\<close>, which is
  archived under \<open>os.path.basename(temp_file.replace('.txt', ''))\<close> and removed; the
  result is the archive written. \<open>if password:\<close> is Python truthiness (\<open>None\<close> and the
  empty string are false).
\<close>

definition create_small_zip :: "pystr \<Rightarrow> pystr \<Rightarrow> pystr option \<Rightarrow> pystr \<times> (pystr \<times> pystr) list" where
  "create_small_zip content filename password =
     (let temp_file = py ''temp_flag.txt'';
          arcname = py_basename (py_replace temp_file (py ''.txt'') []);
          zf = zip_open filename;
          zf = (case password of
                  Some pwd \<Rightarrow> if pwd \<noteq> [] then zip_write (zip_setpassword zf pwd) arcname content
                              else zip_write zf arcname content
                | None \<Rightarrow> zip_write zf arcname content)
      in zip_close zf)"

subsection \<open>The chunk boundaries\<close>

text \<open>
  Chunk \<open>j\<close> starts at \<open>j * chunk_size + min j remainder\<close>: every earlier chunk has
  \<open>chunk_size\<close> characters, and one more for each of the first \<open>remainder\<close> ones.
\<close>

definition split_bound :: "int \<Rightarrow> int \<Rightarrow> nat \<Rightarrow> int" where
  "split_bound chunk_size remainder j = int j * chunk_size + min (int j) remainder"

text \<open>The same boundaries over \<open>nat\<close>, for \<open>p = nat parts > 0\<close> and \<open>n = len(flag)\<close>.\<close>

definition chunk_start :: "nat \<Rightarrow> nat \<Rightarrow> nat \<Rightarrow> nat" where
  "chunk_start n p j = j * (n div p) + min j (n mod p)"

lemma split_bound_Suc:
  "split_bound cs r (Suc j) = split_bound cs r j + cs + (if int j < r then 1 else 0)"
  by (simp add: split_bound_def algebra_simps min_def)

lemma split_loop_bounds:
  "split_loop flag cs r i k (split_bound cs r i) acc =
     acc @ map (\<lambda>j. py_slice flag (split_bound cs r j) (split_bound cs r (Suc j))) [i..<i + k]"
proof (induction k arbitrary: i acc)
  case (Suc k)
  have u: "[i..<i + Suc k] = i # [Suc i..<Suc i + k]" by (subst upt_rec) simp
  have "split_loop flag cs r i (Suc k) (split_bound cs r i) acc =
        split_loop flag cs r (Suc i) k (split_bound cs r (Suc i))
          (acc @ [py_slice flag (split_bound cs r i) (split_bound cs r (Suc i))])"
    by (simp add: split_bound_Suc Let_def)
  also have "\<dots> = (acc @ [py_slice flag (split_bound cs r i) (split_bound cs r (Suc i))]) @
      map (\<lambda>j. py_slice flag (split_bound cs r j) (split_bound cs r (Suc j))) [Suc i..<Suc i + k]"
    by (rule Suc.IH)
  finally show ?case unfolding u by simp
qed simp

lemma split_bound_nat:
  assumes "0 < p"
  shows "split_bound (int n div int p) (int n mod int p) j = int (j * (n div p) + min j (n mod p))"
  by (simp add: split_bound_def zdiv_int [symmetric] zmod_int [symmetric])

lemma concat_consecutive_takes:
  assumes "mono f"
  shows "concat (map (\<lambda>j. take (f (Suc j) - f j) (drop (f j) xs)) [0..<k]) =
         take (f k - f 0) (drop (f 0) xs)"
proof (induction k)
  case (Suc k)
  have le: "f 0 \<le> f k" "f k \<le> f (Suc k)" using assms by (simp_all add: monoD)
  then have e: "f (Suc k) - f 0 = (f k - f 0) + (f (Suc k) - f k)" by simp
  from le have d: "drop (f k) xs = drop (f k - f 0) (drop (f 0) xs)" by simp
  have "concat (map (\<lambda>j. take (f (Suc j) - f j) (drop (f j) xs)) [0..<Suc k]) =
        take (f k - f 0) (drop (f 0) xs) @ take (f (Suc k) - f k) (drop (f k) xs)"
    using Suc.IH by simp
  also have "\<dots> = take (f (Suc k) - f 0) (drop (f 0) xs)"
    by (simp only: e d take_add)
  finally show ?case .
qed simp

lemma chunk_start_mono: "mono (chunk_start n p)"
  by (rule monoI) (simp add: chunk_start_def add_mono)

lemma chunk_start_0 [simp]: "chunk_start n p 0 = 0"
  by (simp add: chunk_start_def)

lemma chunk_start_last: "0 < p \<Longrightarrow> chunk_start n p p = n"
  by (simp add: chunk_start_def mod_less_divisor less_imp_le)

lemma chunk_start_le: "0 < p \<Longrightarrow> j \<le> p \<Longrightarrow> chunk_start n p j \<le> n"
  using monoD [OF chunk_start_mono, of j p n p] by (simp add: chunk_start_last)

lemma chunk_start_Suc:
  "chunk_start n p (Suc j) - chunk_start n p j = (if j < n mod p then n div p + 1 else n div p)"
  by (simp add: chunk_start_def min_def)

lemma split_flag_chunks:
  assumes "0 < parts"
  shows "split_flag flag parts =
           Inr (map (\<lambda>j. take (chunk_start (length flag) (nat parts) (Suc j) - chunk_start (length flag) (nat parts) j)
                            (drop (chunk_start (length flag) (nat parts) j) flag)) [0..<nat parts])"
proof -
  define p where "p = nat parts"
  define n where "n = length flag"
  have pp: "0 < p" and parts: "parts = int p" using assms by (simp_all add: p_def)
  let ?cs = "int n div int p" and ?r = "int n mod int p"
  have b: "split_bound ?cs ?r j = int (chunk_start n p j)" for j
    using pp by (simp add: split_bound_nat chunk_start_def)
  have "split_loop flag ?cs ?r 0 p (split_bound ?cs ?r 0) [] =
        map (\<lambda>j. py_slice flag (split_bound ?cs ?r j) (split_bound ?cs ?r (Suc j))) [0..<p]"
    using split_loop_bounds [of flag ?cs ?r 0 p "[]"] by simp
  also have "\<dots> = map (\<lambda>j. take (chunk_start n p (Suc j) - chunk_start n p j) (drop (chunk_start n p j) flag)) [0..<p]"
  proof (rule map_cong [OF refl])
    fix j assume "j \<in> set [0..<p]"
    then have "chunk_start n p j \<le> chunk_start n p (Suc j)" and "chunk_start n p (Suc j) \<le> length flag"
      using monoD [OF chunk_start_mono, of j "Suc j" n p] chunk_start_le [OF pp, of "Suc j" n]
      by (simp_all add: n_def)
    then show "py_slice flag (split_bound ?cs ?r j) (split_bound ?cs ?r (Suc j)) =
               take (chunk_start n p (Suc j) - chunk_start n p j) (drop (chunk_start n p j) flag)"
      by (simp only: b py_slice_nat)
  qed
  finally have loop: "split_loop flag ?cs ?r 0 p (split_bound ?cs ?r 0) [] =
      map (\<lambda>j. take (chunk_start n p (Suc j) - chunk_start n p j) (drop (chunk_start n p j) flag)) [0..<p]" .
  have b0: "split_bound ?cs ?r 0 = 0" using b [of 0] by simp
  show ?thesis
    unfolding split_flag_def parts using pp loop b0 by (simp add: Let_def n_def)
qed

lemma split_flag_chunks_props:
  assumes "0 < parts"
  shows "\<exists>cs. split_flag flag parts = Inr cs \<and> concat cs = flag \<and>
           map length cs = map (\<lambda>j. if j < length flag mod nat parts then length flag div nat parts + 1
                                      else length flag div nat parts) [0..<nat parts]"
proof -
  let ?b = "chunk_start (length flag) (nat parts)"
  have p: "0 < nat parts" using assms by simp
  have "concat (map (\<lambda>j. take (?b (Suc j) - ?b j) (drop (?b j) flag)) [0..<nat parts]) = flag"
    using concat_consecutive_takes [OF chunk_start_mono, of "length flag" "nat parts" flag "nat parts"]
    by (simp add: chunk_start_last [OF p])
  moreover have "map length (map (\<lambda>j. take (?b (Suc j) - ?b j) (drop (?b j) flag)) [0..<nat parts]) =
                 map (\<lambda>j. if j < length flag mod nat parts then length flag div nat parts + 1
                           else length flag div nat parts) [0..<nat parts]"
    unfolding map_map
  proof (rule map_cong [OF refl])
    fix j assume "j \<in> set [0..<nat parts]"
    then have "?b (Suc j) \<le> length flag" using p by (intro chunk_start_le) simp_all
    then show "(length \<circ> (\<lambda>j. take (?b (Suc j) - ?b j) (drop (?b j) flag))) j =
               (if j < length flag mod nat parts then length flag div nat parts + 1
                else length flag div nat parts)"
      by (simp add: chunk_start_Suc [symmetric])
  qed
  ultimately show ?thesis
    using split_flag_chunks [OF assms] by blast
qed

subsection \<open>Properties of \<open>split_flag\<close>\<close>

text \<open>
  C27. For a positive number of parts, \<open>split_flag\<close> returns exactly \<open>parts\<close> chunks whose
  concatenation is the flag; the first \<open>len(flag) % parts\<close> chunks have
  \<open>len(flag) // parts + 1\<close> characters and the others \<open>len(flag) // parts\<close>. A zero number of
  parts raises \<open>ZeroDivisionError\<close> in \<open>len(flag) // parts\<close>; a negative one gives no chunk
  at all, since \<open>range(parts)\<close> is empty.
\<close>

theorem split_flag_partition:
  "(0 < parts \<longrightarrow>
     (\<exists>cs. split_flag flag parts = Inr cs \<and> concat cs = flag \<and>
           map length cs = map (\<lambda>j. if j < length flag mod nat parts then length flag div nat parts + 1
                                      else length flag div nat parts) [0..<nat parts])) \<and>
   (parts \<le> 0 \<longrightarrow> split_flag flag parts = (if parts = 0 then Inl ZeroDivisionError else Inr []))"
proof (intro conjI impI)
  assume "0 < parts"
  then show "\<exists>cs. split_flag flag parts = Inr cs \<and> concat cs = flag \<and>
           map length cs = map (\<lambda>j. if j < length flag mod nat parts then length flag div nat parts + 1
                                      else length flag div nat parts) [0..<nat parts]"
    by (rule split_flag_chunks_props)
next
  assume "parts \<le> 0"
  then show "split_flag flag parts = (if parts = 0 then Inl ZeroDivisionError else Inr [])"
    by (simp add: split_flag_def Let_def)
qed

theorem split_flag_partition_witness:
  "(\<exists>cs. split_flag (py ''abcde'') 3 = Inr cs \<and> concat cs = py ''abcde'' \<and> map length cs = [2, 2, 1]) \<and>
   split_flag FLAG 0 = Inl ZeroDivisionError \<and> split_flag FLAG (-1) = Inr []"
proof -
  have "map (\<lambda>j. if j < length (py ''abcde'') mod nat 3 then length (py ''abcde'') div nat 3 + 1
                  else length (py ''abcde'') div nat 3) [0..<nat 3] = [2, 2, 1]"
    by (simp add: upt_rec)
  moreover have "0 < (3::int)" and "(0::int) \<le> 0" and "(-1::int) \<le> 0" by simp_all
  ultimately show ?thesis
    using split_flag_partition [of 3 "py ''abcde''"] split_flag_partition [of 0 FLAG]
      split_flag_partition [of "-1" FLAG] by simp
qed

text \<open>
  C29. \<open>main()\<close> cuts the 29-character flag into fourteen chunks: one of three characters
  and thirteen of two, which concatenate back to the flag. None has the four characters
  the script's instructions announce.
\<close>

theorem zip_parts_FLAG:
  "zip_parts = Inr (map py [''CTF'', ''{S'', ''al'', ''aa'', ''r_'', ''de'', ''va'', ''ra'', ''th'',
                            ''a_'', ''ra'', ''is'', ''aa'', ''r}'']) \<and>
   (\<exists>cs. zip_parts = Inr cs \<and> concat cs = FLAG \<and> map length cs = 3 # replicate 13 2)"
proof -
  have "length FLAG = 29" by (simp add: FLAG_def)
  then have z: "zip_parts =
      Inr (map (\<lambda>j. take (chunk_start 29 14 (Suc j) - chunk_start 29 14 j) (drop (chunk_start 29 14 j) FLAG)) [0..<14])"
    using split_flag_chunks [of 14 FLAG] by (simp add: zip_parts_def)
  have r: "replicate 13 (2::nat) = [2, 2, 2, 2, 2, 2, 2, 2, 2, 2, 2, 2, 2]"
    by (simp add: numeral_eq_Suc)
  show ?thesis
    unfolding z r by (simp add: FLAG_def chunk_start_def upt_rec)
qed

subsection \<open>The archives of \<open>main()\<close>\<close>

lemma py_format_02d_small:
  assumes "i < 100"
  shows "py_format_02d i = [48 + i div 10, 48 + i mod 10]"
proof (cases "i < 10")
  case True
  then show ?thesis by (simp add: py_format_02d_def)
next
  case False
  with assms show ?thesis by (simp add: py_format_02d_def py_str_nat_two_digits)
qed

lemma py_format_02d_less:
  assumes "i < j" and "j < 100"
  shows "py_format_02d i < py_format_02d j"
proof -
  have "i div 10 < j div 10 \<or> i div 10 = j div 10 \<and> i mod 10 < j mod 10"
    using assms(1) by (metis div_mult_mod_eq add_less_cancel_left div_le_mono le_less mult_le_mono1
        add_less_mono order_less_imp_le linorder_neqE_nat mod_less_divisor zero_less_numeral)
  then show ?thesis using assms by (auto simp: py_format_02d_small)
qed

lemma append_less_append_iff [simp]: "(xs @ ys < xs @ zs) \<longleftrightarrow> ys < (zs :: nat list)"
  by (induction xs) simp_all

lemma map_fst_zip_upt: "map (\<lambda>x. f (fst x)) (zip [0..<length xs] xs) = map f [0..<length xs]"
proof -
  have "map fst (zip [0..<length xs] xs) = [0..<length xs]" by (rule map_fst_zip) simp
  then have "map f (map fst (zip [0..<length xs] xs)) = map f [0..<length xs]" by simp
  then show ?thesis by (simp only: map_map comp_def)
qed

lemma zip_archives_names:
  "map (\<lambda>(a, n, c). n) (zip_archives parts) = map flag_filename [0..<length parts] \<and>
   map (\<lambda>(a, n, c). c) (zip_archives parts) = parts \<and>
   map fst (zip_archives parts) = map zip_name [0..<length parts]"
  by (simp add: zip_archives_def case_prod_beta comp_def map_fst_zip_upt)

lemma flag_filename_sorted:
  assumes "n \<le> 100"
  shows "sorted (map flag_filename [0..<n])"
  unfolding sorted_iff_nth_mono_less
proof (intro allI impI)
  fix i j assume "i < j" "j < length (map flag_filename [0..<n])"
  then have "py_format_02d i < py_format_02d j" using assms by (intro py_format_02d_less) simp_all
  with \<open>i < j\<close> \<open>j < length (map flag_filename [0..<n])\<close>
  show "map flag_filename [0..<n] ! i \<le> map flag_filename [0..<n] ! j"
    by (simp add: flag_filename_def)
qed

lemma zip_name_master: "zip_name i = py ''challenges/'' @ master_member i"
  by (simp add: zip_name_def master_member_def)

lemma zip_main_result:
  "\<exists>cs. split_flag FLAG 14 = Inr cs \<and> concat cs = FLAG \<and> length cs = 14 \<and>
        zip_main = Inr (zip_archives cs, master_entries)"
proof -
  obtain cs where sp: "split_flag FLAG 14 = Inr cs" and c: "concat cs = FLAG"
    and l: "map length cs = map (\<lambda>j. if j < length FLAG mod nat 14 then length FLAG div nat 14 + 1
                                     else length FLAG div nat 14) [0..<nat 14]"
    using split_flag_chunks_props [of 14 FLAG] by auto
  from arg_cong [OF l, of length] have len: "length cs = 14" by simp
  have "map fst master_entries = map zip_name [0..<14]"
    by (simp add: master_entries_def zip_name_master)
  then have "set (map fst master_entries) \<subseteq> set (map fst (zip_archives cs))"
    using zip_archives_names [of cs] len by simp
  with sp c len show ?thesis by (simp add: zip_main_def Let_def)
qed

text \<open>
  C28. \<open>main()\<close> writes the fourteen archives and packs exactly them, in index order, into the
  master archive; a solver who orders the members by name and concatenates their contents
  obtains the flag, because the zero padding of \<open>{i:02d}\<close> makes the name order the index order.
\<close>

theorem zip_main_archives:
  "\<exists>arch. zip_main = Inr (arch, master_entries) \<and>
          map fst arch = map fst master_entries \<and>
          concat (map (\<lambda>(a, n, c). c) (sort_key (\<lambda>(a, n, c). n) arch)) = FLAG"
proof -
  obtain cs where c: "concat cs = FLAG" and len: "length cs = 14"
    and z: "zip_main = Inr (zip_archives cs, master_entries)"
    using zip_main_result by blast
  have names: "map (\<lambda>(a, n, c). n) (zip_archives cs) = map flag_filename [0..<14]"
    and contents: "map (\<lambda>(a, n, c). c) (zip_archives cs) = cs"
    and paths: "map fst (zip_archives cs) = map zip_name [0..<14]"
    using zip_archives_names [of cs] len by simp_all
  have "sorted (map (\<lambda>(a, n, c). n) (zip_archives cs))"
    unfolding names by (rule flag_filename_sorted) simp
  then have "sort_key (\<lambda>(a, n, c). n) (zip_archives cs) = zip_archives cs"
    by (rule sort_key_id_if_sorted)
  moreover have "map fst master_entries = map zip_name [0..<14]"
    by (simp add: master_entries_def zip_name_master)
  ultimately show ?thesis
    using z c contents paths by auto
qed

subsection \<open>Properties of \<open>create_small_zip\<close>\<close>

text \<open>
  C30. \<open>create_small_zip\<close> writes the same archive whatever the password: one unencrypted
  member named \<open>temp_flag\<close> holding the content. Its password branch protects nothing.
\<close>

theorem create_small_zip_password_ignored:
  "create_small_zip content filename password = (filename, [(py ''temp_flag'', content)])"
  by (simp add: create_small_zip_def zip_open_def zip_setpassword_def zip_write_def zip_close_def
                py_basename_def Let_def split: option.split)

end
