(* ===== verification/Spec2Isabelle.thy ===== *)
theory Spec2Isabelle
  imports Dtmf_Decoder Dtmf_Numpy Flask_Session Zip_Challenge
begin

text \<open>
  \<^bold>\<open>A verification development of the Salaar puzzle.\<close>
  The repository is a three-layer puzzle. \<open>src/app.py\<close> is a Flask application whose
  signed-cookie session records which layers are unlocked. The other three scripts build
  the challenge files it serves. \<open>src/create_zip_challenge.py\<close> cuts the layer-2 flag into
  fourteen archives. \<open>src/create_dtmf_wav_fixed.py\<close> (pure Python) and
  \<open>src/create_dtmf_wav.py\<close> (numpy) encode a message as DTMF tones in a WAV file: each
  character becomes its decimal code point, each digit a two-frequency tone followed by
  silence. A solver decodes the file and submits the message at layer 3.

  \<^bold>\<open>Theories and what they model.\<close>
  \<^item> \<open>Prelude\<close>: the representation of Python values. A \<open>str\<close> is a list of code points
    (\<open>pystr\<close>), a float an exact real, \<open>int()\<close> of a float truncation (\<open>py_int\<close>), bytes
    and int16 samples machine words (\<open>8 word\<close>, \<open>16 word\<close>). Exceptions are the values
    \<open>Inl e\<close> of \<open>py_error + 'a\<close>, sequenced by \<open>py_bind\<close>. Slicing, \<open>str.strip\<close>, the peak
    \<open>np.max(np.abs(.))\<close> (\<open>max_abs\<close>) and little-endian integers (\<open>le_bytes\<close>) are here too,
    with their shared lemmas.
  \<^item> \<open>Dtmf_Table\<close>: both \<open>DTMF_TABLE\<close> dicts, their agreement, the 4 x 3 frequency grid
    and the inverse lookup \<open>dtmf_symbol_of\<close>.
  \<^item> \<open>Ascii_Digits\<close>: \<open>text_to_ascii_digits\<close> (the same in both encoders), and the greedy
    regrouping \<open>decode_printable\<close> a solver applies to the digit stream, with its round
    trip on printable ASCII.
  \<^item> \<open>Wav_Container\<close>: \<open>struct.pack('<h' * n)\<close> as \<open>struct_pack_h_list\<close>, which raises
    \<open>struct.error\<close> outside [-32768, 32767]. The \<open>wave\<close> module is library code and is
    modelled from the spec's 44-byte RIFF layout (\<open>wav_header\<close>, \<open>wave_write\<close>), with the
    parser \<open>wav_parse\<close>, the write/parse round trip, and the spec's well-formedness
    predicate \<open>wav_well_formed\<close> for a container (header fields, consistent sizes).
  \<^item> \<open>Dtmf_Fixed\<close>: \<open>generate_dtmf_tone\<close>, the digit loop (\<open>dtmf_loop\<close>) and
    \<open>create_dtmf_wav\<close> of the pure-Python encoder, and \<open>main()\<close> (\<open>main_fixed\<close>).
  \<^item> \<open>Dtmf_Numpy\<close>: the numpy encoder. It computes the sines at \<open>np.linspace\<close>, normalises
    each tone (\<open>np_normalize\<close>) and then the whole buffer, and converts with
    \<open>astype(np.int16)\<close> (\<open>to_int16\<close>). An empty array raises \<open>ValueError\<close>; a zero peak gives
    NaN, reported as \<open>InvalidFloat\<close>. \<open>main_np\<close> is its \<open>main()\<close>.
  \<^item> \<open>Dtmf_Decoder\<close>: the decoder of spec section 6, which is not code of the repository.
    Spectral detection of the two frequencies is the parameter \<open>detect\<close>. The
    segmentation of step (b) is the loop \<open>segment\<close> over a read position, a
    \<open>partial_function (option)\<close> whose \<open>None\<close> is a loop that never returns.
  \<^item> \<open>Web_App\<close>: the session as a record of the three keys. Every route is a handler
    \<open>session \<Rightarrow> session \<times> response\<close> with its guards and error paths. \<open>dispatch\<close> is the
    route table and \<open>run\<close> a sequence of requests of one browser. \<open>reachable\<close> is the
    inductive set of sessions reachable from the empty cookie. \<open>progress_step\<close> is the
    abstract unlock machine the session refines.
  \<^item> \<open>Flask_Session\<close>: how that session survives between requests. Flask keeps it in a
    cookie signed with \<open>app.secret_key\<close>: \<open>open_session\<close>, \<open>set_cookie\<close>, \<open>save_session\<close>,
    one request (\<open>http_request\<close>), a browser's sequence of requests (\<open>browser_run\<close>),
    two concurrent requests (\<open>concurrent_requests\<close>) and server restarts, each drawing a
    new key (\<open>deploy\<close>). The signature scheme is a parameter \<open>sign\<close>.
  \<^item> \<open>Zip_Challenge\<close>: \<open>split_flag\<close> with Python's floor division and its loop over
    \<open>range(parts)\<close>. \<open>main()\<close> is modelled by its effect: the archives it writes and the
    entries of the master archive (\<open>zip_main\<close>). \<open>create_small_zip\<close> runs over a
    model of the \<open>zipfile\<close> writer (open, setpassword, write, close).
  \<^item> This theory: the properties that span components. The encode/decode round trip,
    and that the artifact messages and the archive parts are (or are not) the answers
    \<open>app.py\<close> accepts.

  \<^bold>\<open>What is proved.\<close>
  \<^item> For the pure-Python encoder: it never raises in \<open>struct.pack\<close>; every sample lies in
    [-32767, 32767]; the exact length and layout of its output; every container it
    returns is well formed.
  \<^item> For a printable message within the RIFF size limit, decoding the encoder's output
    returns the message. This holds for every detector that recovers the frequency pair of
    the digits' tones.
  \<^item> For the numpy encoder: each tone has peak exactly 1; the global normalisation is a
    no-op, so it equals the single-pass algorithm of spec section 9; its samples stay in
    range; its error paths (empty message, one-sample tone); and the same round trip
    through the decoder for non-empty messages; every container it returns is well formed.
  \<^item> For the decoder: the segmentation loop returns exactly for a positive frame length
    or an empty stream, then computes \<open>chunks\<close>, and cuts the encoder's output into one
    frame per digit.
  \<^item> For both \<open>main()\<close>: the artifacts are produced without error, with 36 and 47 digits
    and containers of 793844 and 1036394 bytes.
  \<^item> For the web application: the session refines the abstract progress machine; layer 3
    is never unlocked without layer 2; the audio is served exactly after the right history
    since the last reset; the error paths of the submissions; the findings on stripping,
    the unused \<open>layer_1_unlocked\<close> key and the inconsistent layer-1 shares.
  \<^item> For the cookie session: it implements the session machine for any signature scheme;
    a restart with a new key sends every browser back to a fresh session; two concurrent
    requests can lose an unlock that was just granted.
  \<^item> For the ZIP generator: \<open>split_flag\<close> partitions the flag into chunks of balanced
    lengths; its error path; the concrete split of the flag. The master archive holds
    exactly the fourteen archives, and their names sort in index order. \<open>create_small_zip\<close>
    writes the same unencrypted archive whatever its password.

  \<^bold>\<open>Bounds.\<close>
  The default durations give \<open>int(44100 * 0.2) = 8820\<close> tone and
  \<open>int(0.05 * 44100) = 2205\<close> silence samples per digit. This is why the decoder frames
  have 11025 samples. The peak result for numpy tones needs a sample rate of at least
  4431 Hz, three times the highest frequency 1477 Hz, and at least two samples: then one
  of the first two sample times already gives a nonzero sum of sines. The RIFF size field
  is 32 bits, so a container exists only when \<open>36 + 2 * samples < 2^32\<close>. No fuel is used:
  every loop of the sources is a bounded \<open>for\<close> loop, modelled by structural recursion;
  the only unbounded loop is the decoder's segmentation, modelled as a partial function
  with a proof of when it returns.

  \<^bold>\<open>Not modelled.\<close>
  \<^item> MD5 digests, templates and the file reading of \<open>send_file\<close>: a response names what it
    serves.
  \<^item> The HMAC of Flask's cookie signing (a parameter with the one property a lemma needs
    as its hypothesis), the timestamps and JSON serialisation of the cookie, HTTP framing and
    the Werkzeug server; JSON request bodies enter as the \<open>request_body\<close> datatype.
  \<^item> \<open>print\<close> and \<open>os\<close> I/O, the temporary files of the ZIP script, and the
    compression and byte format of \<open>zipfile\<close>.
  \<^item> Floating-point rounding: floats are exact reals, and \<open>math.sin\<close>/\<open>np.sin\<close> is the
    real sine.
  \<^item> The spectral analysis of a real decoder.
\<close>

section \<open>The artifact round trip\<close>

text \<open>
  C1. For a printable-ASCII message that fits the 32-bit RIFF size field, the
  pure-Python encoder with its default durations returns a container, and decoding that
  container with frames of 8820 tone and 2205 silence samples returns the message, for any
  detector that recovers the frequency pair of the tones of the message's digits.
\<close>

theorem encode_decode_roundtrip:
  assumes printable: "\<forall>c \<in> set msg. printable c"
    and detector: "\<forall>d \<in> set (text_to_ascii_digits msg).
                     map_of DTMF_TABLE d = Some (detect (generate_dtmf_tone d (2 / 10) 44100))"
    and size: "36 + 22050 * length (text_to_ascii_digits msg) < 2 ^ 32"
  shows "\<exists>bs. create_dtmf_wav msg (2 / 10) (5 / 100) = Inr bs \<and>
              decode_wav detect 8820 11025 bs = Some msg"
proof -
  let ?ds = "text_to_ascii_digits msg"
  let ?s = "encoder_samples msg (2 / 10) (5 / 100)"
  let ?fr = "concat (map (\<lambda>v. le16 (word_of_int v)) ?s)"
  have len: "length ?s = 11025 * length ?ds"
    by (simp add: length_encoder_samples)
  have create: "create_dtmf_wav msg (2 / 10) (5 / 100) = Inr (wav_header 1 2 44100 (length ?fr) @ ?fr)"
    using size len by (simp add: create_dtmf_wav_eq Let_def)
  have "\<forall>v \<in> set ?s. -32768 \<le> v \<and> v \<le> 32767"
    using encoder_samples_range [of msg "2 / 10" "5 / 100"] by (auto simp: subset_eq)
  then have samples: "decode_h_list ?fr = Some ?s"
    by (rule decode_h_list_le16)
  have "wav_fields_fit 1 2 44100 (length ?fr)"
    using size len by (simp add: wav_fields_fit_def)
  then have "wav_parse (wav_header 1 2 44100 (length ?fr) @ ?fr) =
             map_option (Pair 44100) (decode_h_list ?fr)"
    by (rule wav_parse_header)
  then have parse: "wav_parse (wav_header 1 2 44100 (length ?fr) @ ?fr) = Some (44100, ?s)"
    by (simp only: samples option.map)
  have "decode_symbols detect 8820 (8820 + py_count (5 / 100 * 44100))
          (concat (map (dtmf_frame (2 / 10) (5 / 100) 44100) ?ds)) = Some ?ds"
    by (rule decode_symbols_frames) (use detector in simp_all)
  then have symbols: "decode_symbols detect 8820 11025 ?s = Some ?ds"
    by (simp add: encoder_samples_frames)
  have "decode_printable ?ds = Some msg"
    using printable by (rule decode_printable_text)
  with create parse symbols show ?thesis
    by (simp add: decode_wav_def)
qed

theorem encode_decode_roundtrip_witness:
  "\<exists>bs. create_dtmf_wav (py ''!'') (2 / 10) (5 / 100) = Inr bs \<and>
        decode_wav (\<lambda>_. (697, 1477)) 8820 11025 bs = Some (py ''!'')"
proof -
  have digits: "text_to_ascii_digits (py ''!'') = py ''33''"
    by (simp add: py_str_nat_two_digits)
  have h1: "\<forall>c \<in> set (py ''!''). printable c"
    by (simp add: printable_def)
  have h2: "\<forall>d \<in> set (text_to_ascii_digits (py ''!'')).
              map_of DTMF_TABLE d = Some ((\<lambda>_. (697, 1477)) (generate_dtmf_tone d (2 / 10) 44100))"
    by (simp only: digits) (simp add: DTMF_TABLE_def)
  have h3: "36 + 22050 * length (text_to_ascii_digits (py ''!'')) < (2::nat) ^ 32"
    by (simp only: digits) simp
  show ?thesis using encode_decode_roundtrip [OF h1 h2 h3] .
qed

text \<open>
  C2. The same round trip for the numpy encoder: for a non-empty printable-ASCII message
  within the RIFF size limit, \<open>create_dtmf_wav.py\<close> returns a container from which the
  decoder with the same framing recovers the message, for any detector that recovers the
  frequency pair of each digit's tone as written (normalised, scaled by 32767 and converted
  to int16).
\<close>

theorem np_encode_decode_roundtrip:
  assumes printable: "\<forall>c \<in> set msg. printable c" and nonempty: "msg \<noteq> []"
    and detector: "\<forall>d \<in> set (text_to_ascii_digits msg).
                     map_of DTMF_TABLE d = Some (detect (map (\<lambda>x. sint (to_int16 x)) (np_tone d (2 / 10))))"
    and size: "36 + 22050 * length (text_to_ascii_digits msg) < 2 ^ 32"
  shows "\<exists>bs. create_dtmf_wav_np msg (2 / 10) (5 / 100) = Inr bs \<and>
              decode_wav detect 8820 11025 bs = Some msg"
proof -
  let ?ds = "text_to_ascii_digits msg"
  let ?q = "\<lambda>x. py_int (x * 32767)"
  let ?tone = "\<lambda>d. map ?q (np_tone d (2 / 10))"
  let ?vs = "concat (map (\<lambda>d. ?tone d @ replicate 2205 0) ?ds)"
  let ?fr = "concat (map (\<lambda>v. le16 (word_of_int v)) ?vs)"
  have "create_dtmf_wav_np msg (2 / 10) (5 / 100) = Inr (wav_header 1 2 44100 (2 * length ?vs) @ ?fr) \<and>
        length ?vs = 11025 * length ?ds"
    by (rule create_dtmf_wav_np_default [OF nonempty size])
  then have create: "create_dtmf_wav_np msg (2 / 10) (5 / 100) = Inr (wav_header 1 2 44100 (length ?fr) @ ?fr)"
    and len: "length ?vs = 11025 * length ?ds" by simp_all
  have digits: "\<And>d. d \<in> set ?ds \<Longrightarrow> is_digit d" by (rule text_to_ascii_digits_digits)
  have "\<forall>v \<in> set ?vs. -32768 \<le> v \<and> v \<le> 32767"
  proof
    fix v assume "v \<in> set ?vs"
    then obtain d where d: "d \<in> set ?ds" and v: "v \<in> set (?tone d @ replicate 2205 0)"
      unfolding set_concat set_map by blast
    show "-32768 \<le> v \<and> v \<le> 32767"
      using v np_tone_int16 [OF digits [OF d]] by auto
  qed
  then have samples: "decode_h_list ?fr = Some ?vs" by (rule decode_h_list_le16)
  have "wav_fields_fit 1 2 44100 (length ?fr)"
    using size len by (simp add: wav_fields_fit_def)
  then have "wav_parse (wav_header 1 2 44100 (length ?fr) @ ?fr) = map_option (Pair 44100) (decode_h_list ?fr)"
    by (rule wav_parse_header)
  then have parse: "wav_parse (wav_header 1 2 44100 (length ?fr) @ ?fr) = Some (44100, ?vs)"
    by (simp only: samples option.map)
  have "\<forall>d \<in> set ?ds. length (?tone d) = 8820 \<and> map_of DTMF_TABLE d = Some (detect (?tone d))"
  proof
    fix d assume d: "d \<in> set ?ds"
    have m: "map (\<lambda>x. sint (to_int16 x)) (np_tone d (2 / 10)) = ?tone d"
      using np_tone_int16 [OF digits [OF d]] by (rule conjunct1)
    from detector d have "map_of DTMF_TABLE d = Some (detect (map (\<lambda>x. sint (to_int16 x)) (np_tone d (2 / 10))))"
      by blast
    then have "map_of DTMF_TABLE d = Some (detect (?tone d))" by (simp only: m)
    moreover have "length (?tone d) = 8820" using np_tone_default [OF digits [OF d]] by simp
    ultimately show "length (?tone d) = 8820 \<and> map_of DTMF_TABLE d = Some (detect (?tone d))" by simp
  qed
  then have "decode_symbols detect 8820 (8820 + 2205) ?vs = Some ?ds"
    by (rule decode_symbols_tones) simp
  then have symbols: "decode_symbols detect 8820 11025 ?vs = Some ?ds" by simp
  have "decode_printable ?ds = Some msg"
    using printable by (rule decode_printable_text)
  with create parse symbols show ?thesis
    by (simp add: decode_wav_def)
qed

theorem np_encode_decode_roundtrip_witness:
  "\<exists>bs. create_dtmf_wav_np (py ''!'') (2 / 10) (5 / 100) = Inr bs \<and>
        decode_wav (\<lambda>_. (697, 1477)) 8820 11025 bs = Some (py ''!'')"
proof -
  have digits: "text_to_ascii_digits (py ''!'') = py ''33''"
    by (simp add: py_str_nat_two_digits)
  have h1: "\<forall>c \<in> set (py ''!''). printable c"
    by (simp add: printable_def)
  have h2: "py ''!'' \<noteq> []" by simp
  have h3: "\<forall>d \<in> set (text_to_ascii_digits (py ''!'')).
              map_of DTMF_TABLE d =
                Some ((\<lambda>_. (697, 1477)) (map (\<lambda>x. sint (to_int16 x)) (np_tone d (2 / 10))))"
    by (simp only: digits) (simp add: DTMF_TABLE_def)
  have h4: "36 + 22050 * length (text_to_ascii_digits (py ''!'')) < (2::nat) ^ 32"
    by (simp only: digits) simp
  show ?thesis using np_encode_decode_roundtrip [OF h1 h2 h3 h4] .
qed

section \<open>The artifact and the web application\<close>

text \<open>
  C17. The message \<open>main()\<close> of the pure-Python encoder puts into the artifact, regrouped
  from its digit stream, is the layer-3 answer of the web application: a browser that
  answers layers 1 and 2 correctly and then submits the decoded message gets the final flag.
\<close>

theorem artifact_answer_accepted:
  "decode_printable (text_to_ascii_digits main_message) = Some LAYER_3_UNLOCK \<and>
   snd (run empty_session
          [Submit1 (answer_body LAYER_1_SECRET),
           Submit2 (answer_body (py ''CTF{Salaar_devaratha_raisaar}'')),
           Submit3 (answer_body (the (decode_printable (text_to_ascii_digits main_message))))]) =
   [Granted LAYER_1_FLAG ''/layer2'', Granted LAYER_2_UNLOCK ''/layer3'', FinalGranted LAYER_3_FLAG]"
proof -
  have "\<forall>c \<in> set main_message. printable c"
    by (simp add: main_message_def printable_def)
  then have "decode_printable (text_to_ascii_digits main_message) = Some main_message"
    by (rule decode_printable_text)
  then have dec: "decode_printable (text_to_ascii_digits main_message) = Some LAYER_3_UNLOCK"
    by (simp only: main_message_def LAYER_3_UNLOCK_def)
  have "snd (run empty_session
          [Submit1 (answer_body LAYER_1_SECRET),
           Submit2 (answer_body (py ''CTF{Salaar_devaratha_raisaar}'')),
           Submit3 (answer_body LAYER_3_UNLOCK)]) =
        [Granted LAYER_1_FLAG ''/layer2'', Granted LAYER_2_UNLOCK ''/layer3'', FinalGranted LAYER_3_FLAG]"
    by (simp add: handler_defs empty_session_def get_answer_def answer_body_def py_strip_def
                  py_isspace_def LAYER_1_SECRET_def LAYER_2_FLAG_def LAYER_3_UNLOCK_def)
  with dec show ?thesis by simp
qed

text \<open>
  C24. The numpy encoder's message \<open>CTFlean{CRYPTOGRAPHY}\<close> regroups from its digit stream
  to itself, but it is not the layer-3 answer: submitting it never yields the final flag,
  whatever the session.
\<close>

theorem numpy_artifact_rejected:
  "decode_printable (text_to_ascii_digits main_message_np) = Some main_message_np \<and>
   snd (submit_layer3 s (answer_body main_message_np)) \<noteq> FinalGranted LAYER_3_FLAG"
proof -
  have "\<forall>c \<in> set main_message_np. printable c"
    by (simp add: main_message_np_def printable_def)
  then have dec: "decode_printable (text_to_ascii_digits main_message_np) = Some main_message_np"
    by (rule decode_printable_text)
  have "get_answer (answer_body main_message_np) = Inr main_message_np"
    by (simp add: get_answer_def answer_body_def main_message_np_def py_strip_def py_isspace_def)
  moreover have "main_message_np \<noteq> LAYER_3_UNLOCK"
    by (simp add: main_message_np_def LAYER_3_UNLOCK_def)
  ultimately have "snd (submit_layer3 s (answer_body main_message_np)) \<noteq> FinalGranted LAYER_3_FLAG"
    by (simp add: submit_layer3_def)
  with dec show ?thesis by simp
qed

text \<open>
  C26. The fourteen parts \<open>create_zip_challenge.py\<close> writes, concatenated in order, are the
  layer-2 answer of the web application: submitting them with layer 2 unlocked unlocks
  layer 3, and without it the route refuses.
\<close>

theorem zip_parts_answer_accepted:
  "\<exists>cs. zip_parts = Inr cs \<and>
        submit_layer2 s (answer_body (concat cs)) =
          (if layer_2_unlocked s then (s\<lparr>layer_3_unlocked := True\<rparr>, Granted LAYER_2_UNLOCK ''/layer3'')
           else (s, Forbidden ''Layer not unlocked''))"
proof -
  obtain cs where z: "zip_parts = Inr cs" and c: "concat cs = FLAG"
    using split_flag_chunks_props [of 14 FLAG] by (auto simp: zip_parts_def)
  have "get_answer (answer_body FLAG) = Inr (py ''CTF{'' @ LAYER_2_FLAG @ py ''}'')"
    by (simp add: get_answer_def answer_body_def FLAG_def LAYER_2_FLAG_def py_strip_def py_isspace_def)
  then have "submit_layer2 s (answer_body (concat cs)) =
          (if layer_2_unlocked s then (s\<lparr>layer_3_unlocked := True\<rparr>, Granted LAYER_2_UNLOCK ''/layer3'')
           else (s, Forbidden ''Layer not unlocked''))"
    by (simp add: c submit_layer2_def)
  with z show ?thesis by blast
qed

text \<open>
  C25. The two \<open>main()\<close> functions produce their artifacts without error: the pure-Python
  message becomes 36 digits and a container of 793844 bytes (9 s of audio), the numpy
  message 47 digits and a container of 1036394 bytes (11.75 s).
\<close>

theorem main_artifacts:
  "length (text_to_ascii_digits main_message) = 36 \<and> (\<exists>bs. main_fixed = Inr bs \<and> length bs = 793844) \<and>
   length (text_to_ascii_digits main_message_np) = 47 \<and> (\<exists>bs. main_np = Inr bs \<and> length bs = 1036394)"
proof -
  have d1: "length (text_to_ascii_digits main_message) = 36"
    by (simp add: main_message_def py_str_nat.simps)
  have d2: "length (text_to_ascii_digits main_message_np) = 47"
    by (simp add: main_message_np_def py_str_nat.simps)
  let ?s = "encoder_samples main_message (2 / 10) (5 / 100)"
  let ?f = "wav_header 1 2 44100 793800 @ concat (map (\<lambda>v. le16 (word_of_int v)) ?s)"
  have l1: "length ?s = 11025 * 36"
    using d1 by (simp add: length_encoder_samples)
  then have "main_fixed = Inr ?f"
    by (simp add: main_fixed_def create_dtmf_wav_eq Let_def)
  moreover have "length ?f = 793844" using l1 by simp
  ultimately have f: "\<exists>bs. main_fixed = Inr bs \<and> length bs = 793844" by blast
  have "main_message_np \<noteq> []" by (simp add: main_message_np_def)
  moreover have "36 + 22050 * length (text_to_ascii_digits main_message_np) < 2 ^ 32"
    using d2 by simp
  ultimately obtain vs where
    n: "main_np = Inr (wav_header 1 2 44100 (2 * length vs) @ concat (map (\<lambda>v. le16 (word_of_int v)) vs))"
    and "length vs = 11025 * length (text_to_ascii_digits main_message_np)"
    unfolding main_np_def using create_dtmf_wav_np_default by blast
  with d2 have "length (wav_header 1 2 44100 (2 * length vs) @ concat (map (\<lambda>v. le16 (word_of_int v)) vs)) = 1036394"
    by simp
  with n have "\<exists>bs. main_np = Inr bs \<and> length bs = 1036394" by blast
  with d1 d2 f show ?thesis by blast
qed

end
